theory Spec2Isabelle
  imports Complex_Main "HOL-Library.AList" "HOL-Library.Multiset"
    "HOL-Library.Char_ord" "HOL-Library.List_Lexorder"
begin

section \<open>Python values\<close>

text \<open>
  The server handles JSON data throughout: tool arguments, provider bodies and result
  payloads. A Python \<open>float\<close> is modelled by the real number it denotes, with separate
  values for negative zero, the infinities and NaN. A \<open>dict\<close> is an association list in
  insertion order whose keys are distinct; a \<open>str\<close> is a list of characters with code
  points below 256.
\<close>

datatype pyfloat = Fin real | NegZero | PInf | NInf | NaN

datatype json =
    JNull
  | JBool bool
  | JInt int
  | JFloat pyfloat
  | JString string
  | JArray "json list"
  | JObject "(string \<times> json) list"

type_synonym pydict = "(string \<times> json) list"

text \<open>Truth value of an object, as \<open>if x\<close>, \<open>not x\<close> and \<open>x or y\<close> test it.\<close>

fun truthy :: "json \<Rightarrow> bool" where
  "truthy JNull = False"
| "truthy (JBool b) = b"
| "truthy (JInt i) = (i \<noteq> 0)"
| "truthy (JFloat f) = (f \<noteq> Fin 0 \<and> f \<noteq> NegZero)"
| "truthy (JString s) = (s \<noteq> [])"
| "truthy (JArray xs) = (xs \<noteq> [])"
| "truthy (JObject kvs) = (kvs \<noteq> [])"

definition py_or :: "json \<Rightarrow> json \<Rightarrow> json" where
  "py_or x y = (if truthy x then x else y)"

text \<open>\<open>d.get(k)\<close> and \<open>d.get(k, default)\<close>.\<close>

definition dict_get_default :: "pydict \<Rightarrow> string \<Rightarrow> json \<Rightarrow> json" where
  "dict_get_default d k dflt = (case map_of d k of None \<Rightarrow> dflt | Some v \<Rightarrow> v)"

definition dict_get :: "pydict \<Rightarrow> string \<Rightarrow> json" where
  "dict_get d k = dict_get_default d k JNull"

fun type_name :: "json \<Rightarrow> string" where
  "type_name JNull = ''NoneType''"
| "type_name (JBool b) = ''bool''"
| "type_name (JInt i) = ''int''"
| "type_name (JFloat f) = ''float''"
| "type_name (JString s) = ''str''"
| "type_name (JArray xs) = ''list''"
| "type_name (JObject kvs) = ''dict''"

text \<open>Decimal text of an integer, as an f-string renders it.\<close>

function digits_of :: "int \<Rightarrow> string" where
  "digits_of n =
     (if n < 10 then [''0123456789'' ! nat n]
      else digits_of (n div 10) @ [''0123456789'' ! nat (n mod 10)])"
  by pat_completeness auto
termination
  by (relation "measure nat") auto

declare digits_of.simps [simp del]

definition str_of_int :: "int \<Rightarrow> string" where
  "str_of_int i = (if i < 0 then CHR ''-'' # digits_of (- i) else digits_of i)"

section \<open>Exceptions\<close>

text \<open>
  \<open>TMDBError\<close> is the server's own exception class, with its message, code and status.
  Every other exception is one of the interpreter's, with its class and its message text.
\<close>

datatype exc_class = KeyError | ValueError | TypeError | AttributeError | OverflowError

datatype exn =
    TMDBError string string int
  | PyExc exc_class string

fun exn_str :: "exn \<Rightarrow> string" where
  "exn_str (TMDBError message code status) = message"
| "exn_str (PyExc c message) = message"

text \<open>A name between single quotes, as the interpreter's messages show it.\<close>

definition quoted :: "string \<Rightarrow> string" where
  "quoted s = CHR 0x27 # s @ [CHR 0x27]"

definition no_attribute :: "json \<Rightarrow> string \<Rightarrow> exn" where
  "no_attribute v attr =
     PyExc AttributeError
       (quoted (type_name v) @ '' object has no attribute '' @ quoted attr)"

section \<open>Environment and state\<close>

text \<open>
  What one HTTP attempt observes: a transport failure (\<open>httpx.RequestError\<close>), or a
  response with its status code and its body, which either parses as JSON or makes
  \<open>resp.json()\<close> raise a \<open>ValueError\<close> with the given text.
\<close>

datatype outcome = RequestError | Response int "string + json"

text \<open>
  The environment is fixed for a run: the credential read from \<open>TMDB_API_KEY\<close> at import
  time, the value of each successive reading of the clock as \<open>time.time()\<close> returns it and
  as \<open>datetime.now(timezone.utc).isoformat()\<close> prints it, and what the provider answers
  to each successive request. Times are real numbers and their differences exact. The
  HTTP client is taken to raise nothing but \<open>httpx.RequestError\<close>.
\<close>

record env =
  api_key :: "string option"
  clock :: "nat \<Rightarrow> real"
  utc_now :: "nat \<Rightarrow> string"
  http :: "nat \<Rightarrow> string \<Rightarrow> pydict \<Rightarrow> outcome"

text \<open>
  A cache key is the tool name with the text \<open>json.dumps(args, sort_keys=True)\<close>. That
  text is determined by, and determines, the argument value with the keys of every object
  in sorted order, so the model keeps this value in place of the text.
\<close>

type_synonym ckey = "string \<times> json"

datatype event =
    CacheRead ckey
  | CacheEvict ckey
  | CacheWrite ckey
  | HttpGet string pydict outcome
  | Sleep real

text \<open>
  The state: the module-level \<open>_cache\<close> dictionary, how many times the clock has been read,
  how many requests have been sent, and the log of effects so far, oldest first.
\<close>

record world =
  cache :: "(ckey \<times> (real \<times> json)) list"
  ticks :: nat
  gets :: nat
  trace :: "event list"

definition initial_world :: world where
  "initial_world = \<lparr>cache = [], ticks = 0, gets = 0, trace = []\<rparr>"

definition time_time :: "env \<Rightarrow> world \<Rightarrow> real \<times> world" where
  "time_time e w = (clock e (ticks w), w\<lparr>ticks := Suc (ticks w)\<rparr>)"

definition emit :: "event \<Rightarrow> world \<Rightarrow> world" where
  "emit ev w = w\<lparr>trace := trace w @ [ev]\<rparr>"

section \<open>Upstream client\<close>

definition CACHE_TTL_SECONDS :: real where
  "CACHE_TTL_SECONDS = 300"

definition MAX_RETRIES :: nat where
  "MAX_RETRIES = 3"

definition INITIAL_BACKOFF_SECONDS :: real where
  "INITIAL_BACKOFF_SECONDS = 1"

text \<open>One \<open>client.get(url, params=params)\<close>: the next answer of the provider.\<close>

definition client_get :: "env \<Rightarrow> string \<Rightarrow> pydict \<Rightarrow> world \<Rightarrow> outcome \<times> world" where
  "client_get e path params w =
     (let out = http e (gets w) path params
      in (out, emit (HttpGet path params out) (w\<lparr>gets := Suc (gets w)\<rparr>)))"

definition sleep :: "real \<Rightarrow> world \<Rightarrow> world" where
  "sleep d w = emit (Sleep d) w"

text \<open>
  The body of \<open>_tmdb_get\<close>'s \<open>for attempt in range(1, MAX_RETRIES + 1)\<close>, by recursion on
  the attempt numbers still to come. Running off the end of the range raises
  \<open>UNKNOWN_ERROR\<close>, as the statement after the loop does.
\<close>

fun tmdb_attempts ::
  "env \<Rightarrow> string \<Rightarrow> pydict \<Rightarrow> nat list \<Rightarrow> real \<Rightarrow> world \<Rightarrow> (exn + json) \<times> world" where
  "tmdb_attempts e path params [] backoff w =
     (Inl (TMDBError ''Exhausted TMDB retries'' ''UNKNOWN_ERROR'' 500), w)"
| "tmdb_attempts e path params (attempt # rest) backoff w =
     (case client_get e path params w of
        (RequestError, w1) \<Rightarrow>
          if attempt = MAX_RETRIES
          then (Inl (TMDBError ''Network error talking to TMDB'' ''NETWORK_ERROR'' 500), w1)
          else tmdb_attempts e path params rest (backoff * 2) (sleep backoff w1)
      | (Response status body, w1) \<Rightarrow>
          if status = 429 then
            if attempt = MAX_RETRIES
            then (Inl (TMDBError ''TMDB rate limit reached after retries'' ''RATE_LIMIT'' 429), w1)
            else tmdb_attempts e path params rest (backoff * 2) (sleep backoff w1)
          else if status \<ge> 500 then
            if attempt = MAX_RETRIES
            then (Inl (TMDBError ''TMDB service unavailable'' ''UPSTREAM_ERROR'' status), w1)
            else tmdb_attempts e path params rest (backoff * 2) (sleep backoff w1)
          else if status \<ge> 400 then
            (Inl (TMDBError (''TMDB returned '' @ str_of_int status) ''BAD_REQUEST'' status), w1)
          else
            (case body of
               Inl msg \<Rightarrow>
                 (Inl (TMDBError (''Failed to parse TMDB JSON: '' @ msg) ''JSON_ERROR'' 500), w1)
             | Inr v \<Rightarrow> (Inr v, w1)))"

definition tmdb_get :: "env \<Rightarrow> string \<Rightarrow> pydict \<Rightarrow> world \<Rightarrow> (exn + json) \<times> world" where
  "tmdb_get e path params w =
     (case api_key e of
        None \<Rightarrow> (Inl (TMDBError ''TMDB_API_KEY missing in environment'' ''CONFIG_ERROR'' 500), w)
      | Some k \<Rightarrow>
          if k = [] then
            (Inl (TMDBError ''TMDB_API_KEY missing in environment'' ''CONFIG_ERROR'' 500), w)
          else
            tmdb_attempts e path (AList.update ''api_key'' (JString k) params)
              [1..<MAX_RETRIES + 1] INITIAL_BACKOFF_SECONDS w)"


section \<open>Interpreter built-ins\<close>

text \<open>
  The text-level conversions of the interpreter are parameters of the model: \<open>int(s)\<close> and
  \<open>float(s)\<close> on a string (the error is the \<open>ValueError\<close>'s message) and the \<open>.1f\<close>
  format of a float. Everything proved holds for whatever they compute. The messages of the
  interpreter's exceptions are worded as CPython 3.10 words them.
\<close>

record builtins =
  int_of_str :: "string \<Rightarrow> string + int"
  float_of_str :: "string \<Rightarrow> string + pyfloat"
  format_1f :: "pyfloat \<Rightarrow> string"

text \<open>\<open>float(i)\<close> on an integer rounds to 53 significant bits, ties to even, and overflows.\<close>

function bit_length :: "int \<Rightarrow> nat" where
  "bit_length n = (if n \<le> 0 then 0 else Suc (bit_length (n div 2)))"
  by pat_completeness auto
termination
  by (relation "measure nat") auto

declare bit_length.simps [simp del]

definition round_to_double :: "int \<Rightarrow> int" where
  "round_to_double a =
     (let n = bit_length a in
      if n \<le> 53 then a
      else
        let sh = n - 53; q = a div 2 ^ sh; r = a mod 2 ^ sh; half = 2 ^ (sh - 1);
            q' = (if r > half \<or> (r = half \<and> odd q) then q + 1 else q)
        in q' * 2 ^ sh)"

definition float_of_int :: "int \<Rightarrow> exn + pyfloat" where
  "float_of_int i =
     (let m = round_to_double \<bar>i\<bar> in
      if m \<ge> 2 ^ 1024 then Inl (PyExc OverflowError ''int too large to convert to float'')
      else Inr (Fin (if i < 0 then - of_int m else of_int m)))"

fun py_int :: "builtins \<Rightarrow> json \<Rightarrow> exn + int" where
  "py_int py (JBool b) = Inr (if b then 1 else 0)"
| "py_int py (JInt i) = Inr i"
| "py_int py (JFloat (Fin r)) = Inr (if r \<ge> 0 then \<lfloor>r\<rfloor> else \<lceil>r\<rceil>)"
| "py_int py (JFloat NegZero) = Inr 0"
| "py_int py (JFloat NaN) = Inl (PyExc ValueError ''cannot convert float NaN to integer'')"
| "py_int py (JFloat f) = Inl (PyExc OverflowError ''cannot convert float infinity to integer'')"
| "py_int py (JString s) =
     (case int_of_str py s of Inl msg \<Rightarrow> Inl (PyExc ValueError msg) | Inr i \<Rightarrow> Inr i)"
| "py_int py v =
     Inl (PyExc TypeError
       (''int() argument must be a string, a bytes-like object or a real number, not ''
        @ quoted (type_name v)))"

fun py_float :: "builtins \<Rightarrow> json \<Rightarrow> exn + pyfloat" where
  "py_float py (JBool b) = Inr (Fin (if b then 1 else 0))"
| "py_float py (JInt i) = float_of_int i"
| "py_float py (JFloat f) = Inr f"
| "py_float py (JString s) =
     (case float_of_str py s of Inl msg \<Rightarrow> Inl (PyExc ValueError msg) | Inr f \<Rightarrow> Inr f)"
| "py_float py v =
     Inl (PyExc TypeError
       (''float() argument must be a string or a real number, not '' @ quoted (type_name v)))"

text \<open>The f-string field \<open>{x:.1f}\<close>.\<close>

fun py_format_1f :: "builtins \<Rightarrow> json \<Rightarrow> exn + string" where
  "py_format_1f py (JBool b) = Inr (format_1f py (Fin (if b then 1 else 0)))"
| "py_format_1f py (JInt i) =
     (case float_of_int i of Inl ex \<Rightarrow> Inl ex | Inr f \<Rightarrow> Inr (format_1f py f))"
| "py_format_1f py (JFloat f) = Inr (format_1f py f)"
| "py_format_1f py (JString s) =
     Inl (PyExc ValueError
       (''Unknown format code '' @ quoted ''f'' @ '' for object of type '' @ quoted ''str''))"
| "py_format_1f py v =
     Inl (PyExc TypeError
       (''unsupported format string passed to '' @ type_name v @ ''.__format__''))"

text \<open>\<open>s.strip()\<close> removes the whitespace characters at both ends.\<close>

definition is_space :: "char \<Rightarrow> bool" where
  "is_space c \<longleftrightarrow>
     c \<in> set [CHR 0x09, CHR 0x0A, CHR 0x0B, CHR 0x0C, CHR 0x0D, CHR 0x1C, CHR 0x1D,
              CHR 0x1E, CHR 0x1F, CHR 0x20, CHR 0x85, CHR 0xA0]"

definition strip :: "string \<Rightarrow> string" where
  "strip s = rev (dropWhile is_space (rev (dropWhile is_space s)))"

fun py_strip :: "json \<Rightarrow> exn + string" where
  "py_strip (JString s) = Inr (strip s)"
| "py_strip v = Inl (no_attribute v ''strip'')"

text \<open>\<open>x.split("-")[0]\<close>: the text before the first hyphen.\<close>

fun py_split_first :: "json \<Rightarrow> exn + string" where
  "py_split_first (JString s) = Inr (takeWhile (\<lambda>c. c \<noteq> CHR ''-'') s)"
| "py_split_first v = Inl (no_attribute v ''split'')"

text \<open>\<open>x.get(k, default)\<close> on an arbitrary parsed body or record.\<close>

fun py_get :: "json \<Rightarrow> string \<Rightarrow> json \<Rightarrow> exn + json" where
  "py_get (JObject d) k dflt = Inr (dict_get_default d k dflt)"
| "py_get v k dflt = Inl (no_attribute v ''get'')"

text \<open>The elements a \<open>for\<close> loop or a comprehension draws from a value.\<close>

fun py_iter :: "json \<Rightarrow> exn + json list" where
  "py_iter (JArray xs) = Inr xs"
| "py_iter (JObject d) = Inr (map (\<lambda>kv. JString (fst kv)) d)"
| "py_iter (JString s) = Inr (map (\<lambda>c. JString [c]) s)"
| "py_iter v = Inl (PyExc TypeError (quoted (type_name v) @ '' object is not iterable''))"

text \<open>\<open>isinstance(x, int)\<close>; \<open>bool\<close> is a subclass of \<open>int\<close>.\<close>

fun is_int :: "json \<Rightarrow> bool" where
  "is_int (JInt i) = True"
| "is_int (JBool b) = True"
| "is_int v = False"

text \<open>A comprehension or loop body applied to each element, stopping at the first raise.\<close>

fun map_all :: "('a \<Rightarrow> exn + 'b) \<Rightarrow> 'a list \<Rightarrow> exn + 'b list" where
  "map_all f [] = Inr []"
| "map_all f (x # xs) =
     (case f x of
        Inl ex \<Rightarrow> Inl ex
      | Inr y \<Rightarrow> (case map_all f xs of Inl ex \<Rightarrow> Inl ex | Inr ys \<Rightarrow> Inr (y # ys)))"

section \<open>Response cache\<close>

text \<open>The value with the keys of every object sorted, which \<open>sort_keys=True\<close> serialises.\<close>

fun sort_keys :: "json \<Rightarrow> json" where
  "sort_keys (JArray xs) = JArray (map sort_keys xs)"
| "sort_keys (JObject d) = JObject (sort_key fst (map (\<lambda>kv. (fst kv, sort_keys (snd kv))) d))"
| "sort_keys v = v"

definition cache_key :: "string \<Rightarrow> pydict \<Rightarrow> ckey" where
  "cache_key tool_name args = (tool_name, sort_keys (JObject args))"

text \<open>\<open>_cache_get\<close> answers \<open>None\<close>, here \<open>JNull\<close>, for a miss.\<close>

definition cache_get :: "env \<Rightarrow> string \<Rightarrow> pydict \<Rightarrow> world \<Rightarrow> json \<times> world" where
  "cache_get e tool_name args w =
     (let key = cache_key tool_name args;
          w0 = emit (CacheRead key) w
      in case map_of (cache w0) key of
           None \<Rightarrow> (JNull, w0)
         | Some (ts, data) \<Rightarrow>
             (case time_time e w0 of
                (now, w1) \<Rightarrow>
                  if now - ts > CACHE_TTL_SECONDS
                  then (JNull, emit (CacheEvict key) (w1\<lparr>cache := AList.delete key (cache w1)\<rparr>))
                  else (data, w1)))"

definition cache_set :: "env \<Rightarrow> string \<Rightarrow> pydict \<Rightarrow> json \<Rightarrow> world \<Rightarrow> world" where
  "cache_set e tool_name args data w =
     (let key = cache_key tool_name args
      in case time_time e w of
           (now, w1) \<Rightarrow>
             emit (CacheWrite key) (w1\<lparr>cache := AList.update key (now, data) (cache w1)\<rparr>))"

section \<open>Result normaliser\<close>

definition map_search_item :: "builtins \<Rightarrow> json \<Rightarrow> json \<Rightarrow> exn + json" where
  "map_search_item py item item_type =
     (case item of
        JObject d \<Rightarrow>
          (let title = py_or (py_or (dict_get d ''title'') (dict_get d ''name'')) (JString []);
               date_field = py_or (dict_get d ''release_date'') (dict_get d ''first_air_date'')
           in case (if truthy date_field
                    then (case py_split_first date_field of
                            Inl ex \<Rightarrow> Inl ex
                          | Inr s \<Rightarrow>
                              (case py_int py (JString s) of
                                 Inl ex \<Rightarrow> Inl ex
                               | Inr y \<Rightarrow> Inr (JInt y)))
                    else Inr JNull) of
                Inl ex \<Rightarrow> Inl ex
              | Inr year \<Rightarrow>
                  (case py_float py (py_or (dict_get d ''vote_average'') (JFloat (Fin 0))) of
                     Inl ex \<Rightarrow> Inl ex
                   | Inr rating \<Rightarrow>
                       (case map_of d ''id'' of
                          None \<Rightarrow> Inl (PyExc KeyError (quoted ''id''))
                        | Some v \<Rightarrow>
                            (case py_int py v of
                               Inl ex \<Rightarrow> Inl ex
                             | Inr i \<Rightarrow>
                                 Inr (JObject
                                   [(''id'', JInt i),
                                    (''title'', title),
                                    (''type'', item_type),
                                    (''year'', year),
                                    (''rating'', JFloat rating),
                                    (''overview'', dict_get_default d ''overview'' (JString [])),
                                    (''poster_path'', dict_get d ''poster_path'')])))))
      | _ \<Rightarrow> Inl (no_attribute item ''get''))"

section \<open>Query operations\<close>

text \<open>
  Each operation first checks its arguments and builds the provider request, then awaits
  \<open>_tmdb_get\<close>, then shapes the answer. The model keeps the three parts in the source's
  order; the first touches neither the network nor the state.
\<close>

definition validation_error :: "string \<Rightarrow> exn" where
  "validation_error message = TMDBError message ''VALIDATION_ERROR'' 400"

definition in_movie_tv :: "json \<Rightarrow> bool" where
  "in_movie_tv v \<longleftrightarrow> v = JString ''movie'' \<or> v = JString ''tv''"

definition type_message :: string where
  "type_message = ''type must be '' @ quoted ''movie'' @ '' or '' @ quoted ''tv''"

record request =
  req_path :: string
  req_params :: pydict
  req_type :: json
  req_query :: string

text \<open>The dictionary every operation returns on success.\<close>

definition payload :: "json list \<Rightarrow> real \<Rightarrow> json" where
  "payload results fetched_at =
     JObject [(''results'', JArray results), (''source'', JString ''TMDB''),
              (''fetched_at'', JFloat (Fin fetched_at))]"

definition search_title_request :: "builtins \<Rightarrow> pydict \<Rightarrow> exn + request" where
  "search_title_request py args =
     (case py_strip (dict_get_default args ''query'' (JString [])) of
        Inl ex \<Rightarrow> Inl ex
      | Inr query \<Rightarrow>
          if query = [] then Inl (validation_error ''query is required'')
          else
            let item_type = py_or (dict_get args ''type'') (JString ''movie'') in
            if \<not> in_movie_tv item_type then Inl (validation_error type_message)
            else
              let year = dict_get args ''year'';
                  language = py_or (dict_get args ''language'') (JString ''en-US'');
                  params = [(''query'', JString query), (''language'', language),
                            (''include_adult'', JBool False)]
              in
              if year \<noteq> JNull \<and> \<not> is_int year
              then Inl (validation_error ''year must be an integer'')
              else
                Inr \<lparr>req_path = (if item_type = JString ''movie'' then ''/search/movie''
                                 else ''/search/tv''),
                     req_params =
                       (if year \<noteq> JNull
                        then (if item_type = JString ''movie''
                              then AList.update ''primary_release_year'' year params
                              else AList.update ''first_air_date_year'' year params)
                        else params),
                     req_type = item_type, req_query = query\<rparr>)"

definition search_title :: "builtins \<Rightarrow> env \<Rightarrow> pydict \<Rightarrow> world \<Rightarrow> (exn + json) \<times> world" where
  "search_title py e args w =
     (case search_title_request py args of
        Inl ex \<Rightarrow> (Inl ex, w)
      | Inr rq \<Rightarrow>
          (case tmdb_get e (req_path rq) (req_params rq) w of
             (Inl ex, w1) \<Rightarrow> (Inl ex, w1)
           | (Inr data, w1) \<Rightarrow>
               (case py_get data ''results'' (JArray []) of
                  Inl ex \<Rightarrow> (Inl ex, w1)
                | Inr results \<Rightarrow>
                    if \<not> truthy results
                    then (Inl (TMDBError (''No results for query '' @ quoted (req_query rq))
                                 ''TITLE_NOT_FOUND'' 404), w1)
                    else
                      (case py_iter results of
                         Inl ex \<Rightarrow> (Inl ex, w1)
                       | Inr items \<Rightarrow>
                           (case map_all (\<lambda>item. map_search_item py item (req_type rq)) items of
                              Inl ex \<Rightarrow> (Inl ex, w1)
                            | Inr mapped \<Rightarrow>
                                (case time_time e w1 of
                                   (now, w2) \<Rightarrow> (Inr (payload mapped now), w2)))))))"

text \<open>
  \<open>int(args.get("id"))\<close> under \<open>except (TypeError, ValueError)\<close>: any other exception of
  the conversion passes through.
\<close>

definition get_recommendations_request :: "builtins \<Rightarrow> pydict \<Rightarrow> exn + request" where
  "get_recommendations_request py args =
     (case py_int py (dict_get args ''id'') of
        Inl (PyExc TypeError msg) \<Rightarrow> Inl (validation_error ''id must be an integer'')
      | Inl (PyExc ValueError msg) \<Rightarrow> Inl (validation_error ''id must be an integer'')
      | Inl ex \<Rightarrow> Inl ex
      | Inr media_id \<Rightarrow>
          let item_type = dict_get args ''type'' in
          if \<not> in_movie_tv item_type then Inl (validation_error type_message)
          else
            Inr \<lparr>req_path = (if item_type = JString ''movie''
                             then ''/movie/'' @ str_of_int media_id @ ''/recommendations''
                             else ''/tv/'' @ str_of_int media_id @ ''/recommendations''),
                 req_params = [(''language'', JString ''en-US'')],
                 req_type = item_type, req_query = []\<rparr>)"

text \<open>\<open>"; ".join(reason)\<close>.\<close>

fun join_semicolon :: "string list \<Rightarrow> string" where
  "join_semicolon [] = []"
| "join_semicolon [x] = x"
| "join_semicolon (x # xs) = x @ ''; '' @ join_semicolon xs"

text \<open>One turn of the loop over the provider's results in \<open>_get_recommendations\<close>.\<close>

definition recommendation_item :: "builtins \<Rightarrow> json \<Rightarrow> json \<Rightarrow> exn + json" where
  "recommendation_item py item_type item =
     (case map_search_item py item item_type of
        Inl ex \<Rightarrow> Inl ex
      | Inr base \<Rightarrow>
          (case py_get item ''vote_average'' JNull of
             Inl ex \<Rightarrow> Inl ex
           | Inr vote_average \<Rightarrow>
               (case (if truthy vote_average
                      then (case py_format_1f py vote_average of
                              Inl ex \<Rightarrow> Inl ex
                            | Inr txt \<Rightarrow> Inr [''high user rating '' @ txt])
                      else Inr []) of
                  Inl ex \<Rightarrow> Inl ex
                | Inr reason1 \<Rightarrow>
                    (case py_get item ''popularity'' JNull of
                       Inl ex \<Rightarrow> Inl ex
                     | Inr popularity \<Rightarrow>
                         (let reason = (if truthy popularity
                                        then reason1 @ [''popular among similar viewers'']
                                        else reason1)
                          in case base of
                               JObject b \<Rightarrow>
                                 Inr (JObject
                                   [(''id'', dict_get b ''id''),
                                    (''title'', dict_get b ''title''),
                                    (''year'', dict_get b ''year''),
                                    (''reason'',
                                       if reason \<noteq> [] then JString (join_semicolon reason)
                                       else JNull)])
                             | v \<Rightarrow>
                                 Inl (PyExc TypeError
                                   (quoted (type_name v) @ '' object is not subscriptable'')))))))"

definition get_recommendations ::
  "builtins \<Rightarrow> env \<Rightarrow> pydict \<Rightarrow> world \<Rightarrow> (exn + json) \<times> world" where
  "get_recommendations py e args w =
     (case get_recommendations_request py args of
        Inl ex \<Rightarrow> (Inl ex, w)
      | Inr rq \<Rightarrow>
          (case tmdb_get e (req_path rq) (req_params rq) w of
             (Inl ex, w1) \<Rightarrow> (Inl ex, w1)
           | (Inr data, w1) \<Rightarrow>
               (case py_get data ''results'' (JArray []) of
                  Inl ex \<Rightarrow> (Inl ex, w1)
                | Inr results \<Rightarrow>
                    (case py_iter results of
                       Inl ex \<Rightarrow> (Inl ex, w1)
                     | Inr items \<Rightarrow>
                         (case map_all (recommendation_item py (req_type rq)) items of
                            Inl ex \<Rightarrow> (Inl ex, w1)
                          | Inr recs \<Rightarrow>
                              (case time_time e w1 of
                                 (now, w2) \<Rightarrow> (Inr (payload recs now), w2)))))))"

text \<open>
  \<open>_discover\<close> reads \<open>genre\<close> into \<open>genre_names\<close> and does not use it again. The f-string
  \<open>f"{sort_by}.desc"\<close> is built from a \<open>sort_by\<close> that has passed the membership test, so it
  is one of the two strings.
\<close>

definition discover_request :: "builtins \<Rightarrow> pydict \<Rightarrow> exn + request" where
  "discover_request py args =
     (let item_type = dict_get args ''type'' in
      if \<not> in_movie_tv item_type then Inl (validation_error type_message)
      else
        let genre_names = py_or (dict_get args ''genre'') (JArray []);
            year = dict_get args ''year'';
            language = py_or (dict_get args ''language'') (JString ''en-US'');
            sort_by = py_or (dict_get args ''sort_by'') (JString ''popularity'')
        in
        if sort_by \<noteq> JString ''popularity'' \<and> sort_by \<noteq> JString ''vote_average''
        then Inl (validation_error
                    (''sort_by must be '' @ quoted ''popularity'' @ '' or ''
                     @ quoted ''vote_average''))
        else
          let params = [(''language'', language), (''include_adult'', JBool False),
                        (''sort_by'',
                           JString ((if sort_by = JString ''popularity'' then ''popularity''
                                     else ''vote_average'') @ ''.desc''))]
          in
          if year \<noteq> JNull \<and> \<not> is_int year
          then Inl (validation_error ''year must be an integer'')
          else
            Inr \<lparr>req_path = (if item_type = JString ''movie'' then ''/discover/movie''
                             else ''/discover/tv''),
                 req_params =
                   (if year \<noteq> JNull
                    then (if item_type = JString ''movie''
                          then AList.update ''primary_release_year'' year params
                          else AList.update ''first_air_date_year'' year params)
                    else params),
                 req_type = item_type, req_query = []\<rparr>)"

definition discover :: "builtins \<Rightarrow> env \<Rightarrow> pydict \<Rightarrow> world \<Rightarrow> (exn + json) \<times> world" where
  "discover py e args w =
     (case discover_request py args of
        Inl ex \<Rightarrow> (Inl ex, w)
      | Inr rq \<Rightarrow>
          (case tmdb_get e (req_path rq) (req_params rq) w of
             (Inl ex, w1) \<Rightarrow> (Inl ex, w1)
           | (Inr data, w1) \<Rightarrow>
               (case py_get data ''results'' (JArray []) of
                  Inl ex \<Rightarrow> (Inl ex, w1)
                | Inr results \<Rightarrow>
                    (case py_iter results of
                       Inl ex \<Rightarrow> (Inl ex, w1)
                     | Inr items \<Rightarrow>
                         (case map_all (\<lambda>item. map_search_item py item (req_type rq)) items of
                            Inl ex \<Rightarrow> (Inl ex, w1)
                          | Inr mapped \<Rightarrow>
                              (case time_time e w1 of
                                 (now, w2) \<Rightarrow> (Inr (payload mapped now), w2)))))))"

section \<open>Dispatcher\<close>

text \<open>
  A \<open>CallToolResult\<close>: the JSON value whose \<open>json.dumps\<close> text is the single text content,
  and the error flag. Log records are not modelled; the clock reading the closing log
  record makes is. Serialising these values and logging are taken not to raise.
\<close>

record call_tool_result =
  content :: json
  isError :: bool

definition dispatch ::
  "builtins \<Rightarrow> env \<Rightarrow> string \<Rightarrow> pydict \<Rightarrow> world \<Rightarrow> (exn + json) \<times> world" where
  "dispatch py e name args w =
     (if name = ''search_title'' then search_title py e args w
      else if name = ''get_recommendations'' then get_recommendations py e args w
      else if name = ''discover'' then discover py e args w
      else (Inl (TMDBError (''Unknown tool: '' @ name) ''UNKNOWN_TOOL'' 400), w))"

text \<open>The body of the \<open>try\<close> statement of \<open>call_tool\<close>.\<close>

definition call_tool_try ::
  "builtins \<Rightarrow> env \<Rightarrow> string \<Rightarrow> pydict \<Rightarrow> world \<Rightarrow> (exn + json) \<times> world" where
  "call_tool_try py e name args w =
     (case cache_get e name args w of
        (cached, w1) \<Rightarrow>
          if cached \<noteq> JNull then
            (case time_time e w1 of (now, w2) \<Rightarrow> (Inr cached, w2))
          else
            (case dispatch py e name args w1 of
               (Inl ex, w2) \<Rightarrow> (Inl ex, w2)
             | (Inr result, w2) \<Rightarrow>
                 (case time_time e (cache_set e name args result w2) of
                    (now, w3) \<Rightarrow> (Inr result, w3))))"

definition error_envelope :: "string \<Rightarrow> string \<Rightarrow> json" where
  "error_envelope code message =
     JObject [(''error'', JString code), (''message'', JString message),
              (''source'', JString ''TMDB'')]"

definition internal_error_envelope :: "string \<Rightarrow> json" where
  "internal_error_envelope message =
     JObject [(''error'', JString ''INTERNAL_ERROR''), (''message'', JString message)]"

text \<open>The two \<open>except\<close> clauses, in the source's order.\<close>

fun handle_exn :: "exn \<Rightarrow> call_tool_result" where
  "handle_exn (TMDBError message code status) =
     \<lparr>content = error_envelope code message, isError = True\<rparr>"
| "handle_exn (PyExc c message) =
     \<lparr>content = internal_error_envelope message, isError = True\<rparr>"

definition call_tool ::
  "builtins \<Rightarrow> env \<Rightarrow> string \<Rightarrow> pydict \<Rightarrow> world \<Rightarrow> call_tool_result \<times> world" where
  "call_tool py e name args w =
     (if name = ''health'' then
        (case time_time e w of
           (now, w1) \<Rightarrow>
             (\<lparr>content = JObject
                  [(''status'', JString ''ok''),
                   (''tmdb_api_key_configured'',
                      JBool (case api_key e of None \<Rightarrow> False | Some k \<Rightarrow> k \<noteq> [])),
                   (''cache_entries'', JInt (int (length (cache w)))),
                   (''timestamp_utc'', JString (utc_now e (ticks w)))],
               isError = False\<rparr>, w1))
      else
        (case time_time e w of
           (start, w1) \<Rightarrow>
             (case call_tool_try py e name args w1 of
                (Inr result, w2) \<Rightarrow> (\<lparr>content = result, isError = False\<rparr>, w2)
              | (Inl ex, w2) \<Rightarrow> (handle_exn ex, w2))))"

section \<open>Notions used to state the properties\<close>

text \<open>The effects a step added to the log.\<close>

definition new_events :: "world \<Rightarrow> world \<Rightarrow> event list" where
  "new_events w w' = drop (length (trace w)) (trace w')"

fun is_429 :: "outcome \<Rightarrow> bool" where
  "is_429 (Response status body) = (status = 429)"
| "is_429 RequestError = False"

text \<open>Sample environments: a configured credential and a provider with one fixed answer.\<close>

definition env_always :: "outcome \<Rightarrow> env" where
  "env_always out =
     \<lparr>api_key = Some ''secret'', clock = (\<lambda>n. 1000 + of_nat n),
      utc_now = (\<lambda>n. ''2025-01-01T00:00:00+00:00''), http = (\<lambda>n path params. out)\<rparr>"

text \<open>
  An instance of the built-ins for running the model on concrete inputs. Its parsers read
  plain decimal integer text only, so on other text that the interpreter converts, such as
  \<open>8.5\<close> or \<open>1_000\<close>, they raise; it stands for the interpreter only where the two
  agree. Its \<open>.1f\<close> format rounds the exact value to one decimal, ties to even.
\<close>

fun digits_value :: "string \<Rightarrow> int \<Rightarrow> int option" where
  "digits_value [] acc = Some acc"
| "digits_value (c # cs) acc =
     (if c \<in> set ''0123456789'' then digits_value cs (10 * acc + (of_char c - 48))
      else None)"

definition decimal_int :: "string \<Rightarrow> string + int" where
  "decimal_int s =
     (let t = strip s;
          bad = Inl (''invalid literal for int() with base 10: '' @ quoted s)
      in case t of
           [] \<Rightarrow> bad
         | c # cs \<Rightarrow>
             if c = CHR ''-'' \<and> cs \<noteq> [] then
               (case digits_value cs 0 of None \<Rightarrow> bad | Some n \<Rightarrow> Inr (- n))
             else if c = CHR ''+'' \<and> cs \<noteq> [] then
               (case digits_value cs 0 of None \<Rightarrow> bad | Some n \<Rightarrow> Inr n)
             else
               (case digits_value t 0 of None \<Rightarrow> bad | Some n \<Rightarrow> Inr n))"

definition one_decimal :: "real \<Rightarrow> string" where
  "one_decimal r =
     (let f = \<lfloor>r * 10\<rfloor>;
          frac = r * 10 - of_int f;
          n = (if frac < 1 / 2 then f else if frac > 1 / 2 then f + 1
               else if even f then f else f + 1)
      in (if r < 0 then ''-'' else []) @ str_of_int (\<bar>n\<bar> div 10) @ ''.''
         @ str_of_int (\<bar>n\<bar> mod 10))"

definition sample_builtins :: builtins where
  "sample_builtins =
     \<lparr>int_of_str = decimal_int,
      float_of_str =
        (\<lambda>s. case decimal_int s of
               Inl msg \<Rightarrow> Inl (''could not convert string to float: '' @ quoted s)
             | Inr i \<Rightarrow> (case float_of_int i of Inl ex \<Rightarrow> Inl (exn_str ex) | Inr f \<Rightarrow> Inr f)),
      format_1f =
        (\<lambda>f. case f of
               Fin r \<Rightarrow> one_decimal r
             | NegZero \<Rightarrow> ''-0.0'' | PInf \<Rightarrow> ''inf'' | NInf \<Rightarrow> ''-inf'' | NaN \<Rightarrow> ''nan'')\<rparr>"

text \<open>An effect of the upstream client on a given request: an attempt or a delay.\<close>

fun is_network :: "string \<Rightarrow> pydict \<Rightarrow> event \<Rightarrow> bool" where
  "is_network path params (HttpGet path' params' out) = (path' = path \<and> params' = params)"
| "is_network path params (Sleep d) = True"
| "is_network path params ev = False"

fun is_cache_write :: "event \<Rightarrow> bool" where
  "is_cache_write (CacheWrite key) = True"
| "is_cache_write ev = False"

definition discover_param_names :: "string set" where
  "discover_param_names =
     {''language'', ''include_adult'', ''sort_by'', ''primary_release_year'',
      ''first_air_date_year''}"

text \<open>The request an operation builds for its arguments, or the exception it raises first.\<close>

definition build_request :: "builtins \<Rightarrow> string \<Rightarrow> pydict \<Rightarrow> exn + request" where
  "build_request py name args =
     (if name = ''search_title'' then search_title_request py args
      else if name = ''get_recommendations'' then get_recommendations_request py args
      else if name = ''discover'' then discover_request py args
      else Inl (TMDBError (''Unknown tool: '' @ name) ''UNKNOWN_TOOL'' 400))"

definition accepts :: "builtins \<Rightarrow> string \<Rightarrow> pydict \<Rightarrow> bool" where
  "accepts py name args \<longleftrightarrow> (\<exists>rq. build_request py name args = Inr rq)"

text \<open>
  Two values that differ at most in the order of the keys inside them: equal scalars, or
  containers of the same kind that are both empty or both not.
\<close>

definition alike :: "json \<Rightarrow> json \<Rightarrow> bool" where
  "alike u v \<longleftrightarrow>
     u = v \<or> (\<exists>xs ys. u = JArray xs \<and> v = JArray ys \<and> (xs = [] \<longleftrightarrow> ys = []))
           \<or> (\<exists>xs ys. u = JObject xs \<and> v = JObject ys \<and> (xs = [] \<longleftrightarrow> ys = []))"

text \<open>
  Two values that hold the same data and differ at most in the order of the keys of their
  objects, at any depth: the same value; arrays of such values, element by element;
  objects one of which, put in some other order, has the keys of the other in turn, each
  with such a value.
\<close>

inductive reordered :: "json \<Rightarrow> json \<Rightarrow> bool" where
  same: "reordered v v"
| array: "list_all2 reordered xs ys \<Longrightarrow> reordered (JArray xs) (JArray ys)"
| object:
    "distinct (map fst d) \<Longrightarrow> mset d'' = mset d' \<Longrightarrow>
     list_all2 (\<lambda>kv kv'. fst kv = fst kv' \<and> reordered (snd kv) (snd kv')) d d'' \<Longrightarrow>
     reordered (JObject d) (JObject d')"

text \<open>
  What holds of the cache whenever the dispatcher is entered: keys are distinct, and an
  entry is a success payload stored under the key of arguments its operation accepts.
\<close>

definition cache_inv :: "builtins \<Rightarrow> world \<Rightarrow> bool" where
  "cache_inv py w \<longleftrightarrow>
     distinct (map fst (cache w)) \<and>
     (\<forall>name k ts data. map_of (cache w) (name, k) = Some (ts, data) \<longrightarrow>
        (\<exists>results fetched_at. data = payload results fetched_at) \<and>
        (\<forall>args. sort_keys (JObject args) = k \<longrightarrow> accepts py name args))"

text \<open>
  The states of a server process: empty at start-up, then one tool call after another,
  each run to its end before the next.
\<close>

inductive reachable :: "builtins \<Rightarrow> env \<Rightarrow> world \<Rightarrow> bool" for py e where
  start: "reachable py e initial_world"
| step: "reachable py e w \<Longrightarrow> reachable py e (snd (call_tool py e name args w))"

text \<open>The codes of the errors the server raises itself.\<close>

definition classified_codes :: "string set" where
  "classified_codes =
     {''CONFIG_ERROR'', ''VALIDATION_ERROR'', ''TITLE_NOT_FOUND'', ''NETWORK_ERROR'',
      ''RATE_LIMIT'', ''UPSTREAM_ERROR'', ''BAD_REQUEST'', ''JSON_ERROR'', ''UNKNOWN_TOOL''}"

text \<open>A provider that answers every request with status 200 and the given body.\<close>

definition env_ok :: "json \<Rightarrow> env" where
  "env_ok body = env_always (Response 200 (Inr body))"

definition no_results :: json where
  "no_results = JObject [(''page'', JInt 1), (''results'', JArray [])]"

text \<open>A start-up state into which one cache entry has been put.\<close>

definition world_with_entry :: "ckey \<Rightarrow> real \<Rightarrow> json \<Rightarrow> world" where
  "world_with_entry key ts data = initial_world\<lparr>cache := [(key, (ts, data))]\<rparr>"

text \<open>The provider body of the repository's own search test.\<close>

definition inception_body :: json where
  "inception_body =
     JObject [(''results'',
       JArray [JObject [(''id'', JInt 123), (''title'', JString ''Inception''),
                        (''overview'', JString ''Dream heist.''),
                        (''release_date'', JString ''2010-07-16''),
                        (''vote_average'', JFloat (Fin (44 / 5))),
                        (''poster_path'', JString ''/poster.jpg'')]])]"





section \<open>The retry loop\<close>

lemma client_get_simp [simp]:
  "client_get e path params w =
     (http e (gets w) path params,
      w\<lparr>gets := Suc (gets w),
          trace := trace w @ [HttpGet path params (http e (gets w) path params)]\<rparr>)"
  by (simp add: client_get_def emit_def Let_def)

lemma sleep_simp [simp]: "sleep d w = w\<lparr>trace := trace w @ [Sleep d]\<rparr>"
  by (simp add: sleep_def emit_def)

lemma attempt_429_retry:
  "is_429 (http e (gets w) path params) \<Longrightarrow> a \<noteq> MAX_RETRIES \<Longrightarrow>
   tmdb_attempts e path params (a # as) b w =
     tmdb_attempts e path params as (b * 2)
       (w\<lparr>gets := Suc (gets w),
           trace := trace w @ [HttpGet path params (http e (gets w) path params), Sleep b]\<rparr>)"
  by (cases "http e (gets w) path params") auto

lemma attempt_429_last:
  "is_429 (http e (gets w) path params) \<Longrightarrow> a = MAX_RETRIES \<Longrightarrow>
   tmdb_attempts e path params (a # as) b w =
     (Inl (TMDBError ''TMDB rate limit reached after retries'' ''RATE_LIMIT'' 429),
      w\<lparr>gets := Suc (gets w),
          trace := trace w @ [HttpGet path params (http e (gets w) path params)]\<rparr>)"
  by (cases "http e (gets w) path params") auto

lemma attempt_other_4xx:
  "http e (gets w) path params = Response status body \<Longrightarrow>
   400 \<le> status \<Longrightarrow> status < 500 \<Longrightarrow> status \<noteq> 429 \<Longrightarrow>
   tmdb_attempts e path params (a # as) b w =
     (Inl (TMDBError (''TMDB returned '' @ str_of_int status) ''BAD_REQUEST'' status),
      w\<lparr>gets := Suc (gets w),
          trace := trace w @ [HttpGet path params (Response status body)]\<rparr>)"
  by auto

lemma attempt_range: "[1..<MAX_RETRIES + 1] = [1, 2, 3]"
  by (simp add: MAX_RETRIES_def upt_rec)

lemma tmdb_get_unconfigured:
  "api_key e = None \<or> api_key e = Some [] \<Longrightarrow>
   tmdb_get e path params w =
     (Inl (TMDBError ''TMDB_API_KEY missing in environment'' ''CONFIG_ERROR'' 500), w)"
  by (auto simp: tmdb_get_def)

lemma tmdb_get_configured:
  "api_key e = Some k \<Longrightarrow> k \<noteq> [] \<Longrightarrow>
   tmdb_get e path params w =
     tmdb_attempts e path (AList.update ''api_key'' (JString k) params) [1, 2, 3] 1 w"
  unfolding tmdb_get_def attempt_range INITIAL_BACKOFF_SECONDS_def by simp

text \<open>
  Claim C1. Let the credential be configured. If every attempt at the request observes
  status 429, the upstream client's fetch makes exactly three attempts, sleeping 1 and
  then 2 time-units between them, and then raises the error with code \<open>RATE_LIMIT\<close>. If
  the first attempt observes a status from 400 to 499 other than 429, the fetch raises
  the error with code \<open>BAD_REQUEST\<close> at once: that attempt is the only one and there is
  no delay.
\<close>

theorem tmdb_get_retries_429_and_stops_on_4xx:
  assumes key: "api_key e = Some k" "k \<noteq> []"
  shows "((\<forall>n. is_429 (http e n path (AList.update ''api_key'' (JString k) params))) \<longrightarrow>
            tmdb_get e path params w =
              (Inl (TMDBError ''TMDB rate limit reached after retries'' ''RATE_LIMIT'' 429),
               w\<lparr>gets := gets w + 3,
                  trace := trace w @
                    [HttpGet path (AList.update ''api_key'' (JString k) params)
                       (http e (gets w) path (AList.update ''api_key'' (JString k) params)),
                     Sleep 1,
                     HttpGet path (AList.update ''api_key'' (JString k) params)
                       (http e (gets w + 1) path (AList.update ''api_key'' (JString k) params)),
                     Sleep 2,
                     HttpGet path (AList.update ''api_key'' (JString k) params)
                       (http e (gets w + 2) path
                          (AList.update ''api_key'' (JString k) params))]\<rparr>))
       \<and> (\<forall>status body.
             http e (gets w) path (AList.update ''api_key'' (JString k) params)
               = Response status body
             \<and> 400 \<le> status \<and> status < 500 \<and> status \<noteq> 429 \<longrightarrow>
             tmdb_get e path params w =
               (Inl (TMDBError (''TMDB returned '' @ str_of_int status) ''BAD_REQUEST'' status),
                w\<lparr>gets := Suc (gets w),
                   trace := trace w @
                     [HttpGet path (AList.update ''api_key'' (JString k) params)
                        (Response status body)]\<rparr>))"
proof -
  let ?p = "AList.update ''api_key'' (JString k) params"
  have run: "tmdb_get e path params w = tmdb_attempts e path ?p [1, 2, 3] 1 w"
    using key by (rule tmdb_get_configured)
  have limited: "tmdb_attempts e path ?p [1, 2, 3] 1 w =
      (Inl (TMDBError ''TMDB rate limit reached after retries'' ''RATE_LIMIT'' 429),
       w\<lparr>gets := gets w + 3,
          trace := trace w @
            [HttpGet path ?p (http e (gets w) path ?p), Sleep 1,
             HttpGet path ?p (http e (gets w + 1) path ?p), Sleep 2,
             HttpGet path ?p (http e (gets w + 2) path ?p)]\<rparr>)"
    if all: "\<forall>n. is_429 (http e n path ?p)"
  proof -
    let ?w1 = "w\<lparr>gets := Suc (gets w),
                 trace := trace w @ [HttpGet path ?p (http e (gets w) path ?p), Sleep 1]\<rparr>"
    let ?w2 = "?w1\<lparr>gets := Suc (gets ?w1),
                 trace := trace ?w1 @ [HttpGet path ?p (http e (gets ?w1) path ?p), Sleep 2]\<rparr>"
    have s1: "tmdb_attempts e path ?p [1, 2, 3] 1 w = tmdb_attempts e path ?p [2, 3] 2 ?w1"
      using all by (subst attempt_429_retry) (simp_all add: MAX_RETRIES_def)
    have s2: "tmdb_attempts e path ?p [2, 3] 2 ?w1 = tmdb_attempts e path ?p [3] 4 ?w2"
      using all by (subst attempt_429_retry) (simp_all add: MAX_RETRIES_def)
    have s3: "tmdb_attempts e path ?p [3] 4 ?w2 =
        (Inl (TMDBError ''TMDB rate limit reached after retries'' ''RATE_LIMIT'' 429),
         ?w2\<lparr>gets := Suc (gets ?w2),
              trace := trace ?w2 @ [HttpGet path ?p (http e (gets ?w2) path ?p)]\<rparr>)"
      using all by (subst attempt_429_last) (simp_all add: MAX_RETRIES_def)
    show ?thesis unfolding s1 s2 s3 by simp
  qed
  have refused: "tmdb_attempts e path ?p [1, 2, 3] 1 w =
      (Inl (TMDBError (''TMDB returned '' @ str_of_int status) ''BAD_REQUEST'' status),
       w\<lparr>gets := Suc (gets w), trace := trace w @ [HttpGet path ?p (Response status body)]\<rparr>)"
    if "http e (gets w) path ?p = Response status body"
      "400 \<le> status" "status < 500" "status \<noteq> 429" for status body
    using that by (rule attempt_other_4xx)
  from limited refused show ?thesis unfolding run by blast
qed

theorem tmdb_get_retries_429_and_stops_on_4xx_witness:
  "api_key (env_always (Response 429 (Inl []))) = Some ''secret'' \<and> ''secret'' \<noteq> []
   \<and> (\<forall>n. is_429 (http (env_always (Response 429 (Inl []))) n ''/search/movie''
                  (AList.update ''api_key'' (JString ''secret'') [])))
   \<and> tmdb_get (env_always (Response 429 (Inl []))) ''/search/movie'' [] initial_world =
       (Inl (TMDBError ''TMDB rate limit reached after retries'' ''RATE_LIMIT'' 429),
        \<lparr>cache = [], ticks = 0, gets = 3,
         trace = [HttpGet ''/search/movie'' [(''api_key'', JString ''secret'')]
                    (Response 429 (Inl [])), Sleep 1,
                  HttpGet ''/search/movie'' [(''api_key'', JString ''secret'')]
                    (Response 429 (Inl [])), Sleep 2,
                  HttpGet ''/search/movie'' [(''api_key'', JString ''secret'')]
                    (Response 429 (Inl []))]\<rparr>)
   \<and> http (env_always (Response 404 (Inl []))) (gets initial_world) ''/search/movie''
         (AList.update ''api_key'' (JString ''secret'') []) = Response 404 (Inl [])
   \<and> (400::int) \<le> 404 \<and> (404::int) < 500 \<and> (404::int) \<noteq> 429
   \<and> tmdb_get (env_always (Response 404 (Inl []))) ''/search/movie'' [] initial_world =
       (Inl (TMDBError ''TMDB returned 404'' ''BAD_REQUEST'' 404),
        \<lparr>cache = [], ticks = 0, gets = 1,
         trace = [HttpGet ''/search/movie'' [(''api_key'', JString ''secret'')]
                    (Response 404 (Inl []))]\<rparr>)"
proof -
  let ?e1 = "env_always (Response 429 (Inl []))"
  let ?e2 = "env_always (Response 404 (Inl []))"
  have k1: "api_key ?e1 = Some ''secret''" and k2: "api_key ?e2 = Some ''secret''"
    by (simp_all add: env_always_def)
  have ne: "''secret'' \<noteq> []" by simp
  have h1: "\<forall>n. is_429 (http ?e1 n ''/search/movie''
                  (AList.update ''api_key'' (JString ''secret'') []))"
    by (simp add: env_always_def)
  have h2: "http ?e2 (gets initial_world) ''/search/movie''
         (AList.update ''api_key'' (JString ''secret'') []) = Response 404 (Inl [])"
    by (simp add: env_always_def)
  have s: "str_of_int 404 = ''404''"
    by (simp add: str_of_int_def digits_of.simps)
  from tmdb_get_retries_429_and_stops_on_4xx [OF k1 ne, of "''/search/movie''" "[]"
      initial_world] h1
  have c1: "tmdb_get ?e1 ''/search/movie'' [] initial_world =
       (Inl (TMDBError ''TMDB rate limit reached after retries'' ''RATE_LIMIT'' 429),
        \<lparr>cache = [], ticks = 0, gets = 3,
         trace = [HttpGet ''/search/movie'' [(''api_key'', JString ''secret'')]
                    (Response 429 (Inl [])), Sleep 1,
                  HttpGet ''/search/movie'' [(''api_key'', JString ''secret'')]
                    (Response 429 (Inl [])), Sleep 2,
                  HttpGet ''/search/movie'' [(''api_key'', JString ''secret'')]
                    (Response 429 (Inl []))]\<rparr>)"
    by (simp add: initial_world_def env_always_def)
  from tmdb_get_retries_429_and_stops_on_4xx [OF k2 ne, of "''/search/movie''" "[]"
      initial_world] h2
  have c2: "tmdb_get ?e2 ''/search/movie'' [] initial_world =
       (Inl (TMDBError ''TMDB returned 404'' ''BAD_REQUEST'' 404),
        \<lparr>cache = [], ticks = 0, gets = 1,
         trace = [HttpGet ''/search/movie'' [(''api_key'', JString ''secret'')]
                    (Response 404 (Inl []))]\<rparr>)"
    by (simp add: initial_world_def s)
  from k1 ne h1 c1 h2 c2 show ?thesis by simp
qed

section \<open>State primitives\<close>

lemma time_time_simp [simp]:
  "time_time e w = (clock e (ticks w), w\<lparr>ticks := Suc (ticks w)\<rparr>)"
  by (simp add: time_time_def)

lemma emit_simp [simp]: "emit ev w = w\<lparr>trace := trace w @ [ev]\<rparr>"
  by (simp add: emit_def)

lemma tmdb_attempts_frame:
  "tmdb_attempts e path params as b w = (r, w') \<Longrightarrow>
     cache w' = cache w \<and> ticks w' = ticks w \<and>
     (\<exists>evs. trace w' = trace w @ evs \<and> list_all (is_network path params) evs)"
proof (induction as arbitrary: b w)
  case Nil
  then show ?case by auto
next
  case (Cons a as)
  show ?case using Cons.prems
    by (auto split: outcome.splits if_splits sum.splits dest!: Cons.IH)
qed

lemma tmdb_get_frame:
  assumes "tmdb_get e path params w = (r, w')"
  shows "cache w' = cache w \<and> ticks w' = ticks w \<and>
     (\<exists>evs k. trace w' = trace w @ evs \<and>
        list_all (is_network path (AList.update ''api_key'' (JString k) params)) evs)"
  using assms
  by (auto simp: tmdb_get_def split: option.splits if_splits dest!: tmdb_attempts_frame)

section \<open>Sorted keys\<close>

lemma map_of_insort_key: "map_of (insort_key fst x ys) = map_of (x # ys)"
proof (induction ys)
  case Nil
  then show ?case by simp
next
  case (Cons y ys)
  show ?case
  proof (cases "fst x \<le> fst y")
    case True
    then show ?thesis by simp
  next
    case False
    then have ne: "fst x \<noteq> fst y" by auto
    have "map_of (insort_key fst x (y # ys)) = map_of (y # insort_key fst x ys)"
      using False by simp
    also have "\<dots> = (map_of (insort_key fst x ys))(fst y \<mapsto> snd y)"
      by (cases y) simp
    also have "\<dots> = (map_of (x # ys))(fst y \<mapsto> snd y)"
      by (simp only: Cons.IH)
    also have "\<dots> = map_of (x # y # ys)"
      using ne by (cases x; cases y) (auto simp: fun_upd_twist)
    finally show ?thesis .
  qed
qed

lemma map_of_sort_key: "map_of (sort_key fst xs) = map_of xs"
proof (induction xs)
  case Nil
  then show ?case by simp
next
  case (Cons x xs)
  have "map_of (sort_key fst (x # xs)) = map_of (x # sort_key fst xs)"
    by (simp add: map_of_insort_key del: map_of.simps)
  also have "\<dots> = map_of (x # xs)"
    using Cons.IH by (cases x) simp
  finally show ?case .
qed

lemma map_of_map_snd:
  "map_of (map (\<lambda>kv. (fst kv, f (snd kv))) d) k = map_option f (map_of d k)"
  by (induction d) auto

lemma sort_keys_lookup:
  assumes "sort_keys (JObject a) = sort_keys (JObject b)"
  shows "map_option sort_keys (map_of a k) = map_option sort_keys (map_of b k)"
proof -
  from assms have
    "map_of (sort_key fst (map (\<lambda>kv. (fst kv, sort_keys (snd kv))) a)) k =
     map_of (sort_key fst (map (\<lambda>kv. (fst kv, sort_keys (snd kv))) b)) k"
    by simp
  then show ?thesis
    by (simp only: map_of_sort_key map_of_map_snd)
qed

lemma sort_key_Nil_iff: "sort_key f xs = [] \<longleftrightarrow> xs = []"
  by (metis length_sort length_0_conv)

lemma sort_keys_alike: "sort_keys u = sort_keys v \<Longrightarrow> alike u v"
  by (cases u; cases v) (auto simp: alike_def sort_key_Nil_iff dest: arg_cong [where f = length])

lemma alike_dict_get:
  assumes "sort_keys (JObject a) = sort_keys (JObject b)"
  shows "alike (dict_get_default a k dflt) (dict_get_default b k dflt)"
    and "alike (dict_get a k) (dict_get b k)"
proof -
  show "alike (dict_get_default a k dflt) (dict_get_default b k dflt)" for dflt
  proof (cases "map_of a k")
    case None
    with sort_keys_lookup [OF assms, of k] have "map_of b k = None" by simp
    with None show ?thesis by (simp add: dict_get_default_def alike_def)
  next
    case (Some u)
    with sort_keys_lookup [OF assms, of k] obtain v
      where v: "map_of b k = Some v" "sort_keys u = sort_keys v"
      by (cases "map_of b k") auto
    from sort_keys_alike [OF v(2)] Some v(1) show ?thesis
      by (simp add: dict_get_default_def)
  qed
  then show "alike (dict_get a k) (dict_get b k)"
    by (simp add: dict_get_def)
qed

lemma alike_py_strip: "alike u v \<Longrightarrow> py_strip u = py_strip v"
  by (auto simp: alike_def no_attribute_def)

lemma alike_truthy: "alike u v \<Longrightarrow> truthy u = truthy v"
  by (auto simp: alike_def)

lemma alike_in_movie_tv: "alike u v \<Longrightarrow> in_movie_tv u = in_movie_tv v"
  by (auto simp: alike_def in_movie_tv_def)

lemma alike_null: "alike u v \<Longrightarrow> (u = JNull) = (v = JNull)"
  by (auto simp: alike_def)

lemma alike_is_int: "alike u v \<Longrightarrow> is_int u = is_int v"
  by (auto simp: alike_def)

lemma alike_py_int: "alike u v \<Longrightarrow> py_int py u = py_int py v"
  by (auto simp: alike_def)

lemma alike_eq_string: "alike u v \<Longrightarrow> (u = JString s) = (v = JString s)"
  by (auto simp: alike_def)

lemma alike_py_or: "alike u v \<Longrightarrow> alike (py_or u d) (py_or v d)"
  by (auto simp: py_or_def alike_truthy) (auto simp: alike_def)

lemma search_title_accepts_alike:
  assumes "sort_keys (JObject a) = sort_keys (JObject b)"
  shows "isl (search_title_request py a) = isl (search_title_request py b)"
proof -
  note al = alike_dict_get [OF assms]
  have q: "py_strip (dict_get_default a ''query'' (JString [])) =
           py_strip (dict_get_default b ''query'' (JString []))"
    by (rule alike_py_strip) (rule al)
  have t: "in_movie_tv (py_or (dict_get a ''type'') (JString ''movie'')) =
           in_movie_tv (py_or (dict_get b ''type'') (JString ''movie''))"
    by (intro alike_in_movie_tv alike_py_or al)
  have y1: "(dict_get a ''year'' = JNull) = (dict_get b ''year'' = JNull)"
    by (intro alike_null al)
  have y2: "is_int (dict_get a ''year'') = is_int (dict_get b ''year'')"
    by (intro alike_is_int al)
  show ?thesis
    unfolding search_title_request_def Let_def q t y1 y2
    by (simp split: sum.splits)
qed

lemma get_recommendations_accepts_alike:
  assumes "sort_keys (JObject a) = sort_keys (JObject b)"
  shows "isl (get_recommendations_request py a) = isl (get_recommendations_request py b)"
proof -
  note al = alike_dict_get [OF assms]
  have i: "py_int py (dict_get a ''id'') = py_int py (dict_get b ''id'')"
    by (intro alike_py_int al)
  have t: "in_movie_tv (dict_get a ''type'') = in_movie_tv (dict_get b ''type'')"
    by (intro alike_in_movie_tv al)
  show ?thesis
    unfolding get_recommendations_request_def Let_def i t
    by (simp split: sum.splits exn.splits exc_class.splits)
qed

lemma discover_accepts_alike:
  assumes "sort_keys (JObject a) = sort_keys (JObject b)"
  shows "isl (discover_request py a) = isl (discover_request py b)"
proof -
  note al = alike_dict_get [OF assms]
  have t: "in_movie_tv (dict_get a ''type'') = in_movie_tv (dict_get b ''type'')"
    by (intro alike_in_movie_tv al)
  have s: "(py_or (dict_get a ''sort_by'') (JString ''popularity'') = JString x) =
           (py_or (dict_get b ''sort_by'') (JString ''popularity'') = JString x)" for x
    by (intro alike_eq_string alike_py_or al)
  have y1: "(dict_get a ''year'' = JNull) = (dict_get b ''year'' = JNull)"
    by (intro alike_null al)
  have y2: "is_int (dict_get a ''year'') = is_int (dict_get b ''year'')"
    by (intro alike_is_int al)
  show ?thesis
    unfolding discover_request_def Let_def t s y1 y2
    by simp
qed

lemma accepts_isl: "accepts py name args \<longleftrightarrow> \<not> isl (build_request py name args)"
  by (cases "build_request py name args") (auto simp: accepts_def)

lemma accepts_sort_keys:
  assumes "sort_keys (JObject a) = sort_keys (JObject b)"
  shows "accepts py name a = accepts py name b"
  unfolding accepts_isl build_request_def
  using search_title_accepts_alike [OF assms] get_recommendations_accepts_alike [OF assms]
    discover_accepts_alike [OF assms]
  by simp

section \<open>Effects of the operations\<close>

lemma search_title_frame:
  assumes "search_title py e args w = (r, w')"
  shows "cache w' = cache w \<and>
     (\<exists>evs. trace w' = trace w @ evs \<and>
        (evs \<noteq> [] \<longrightarrow> (\<exists>rq k. search_title_request py args = Inr rq \<and>
           list_all (is_network (req_path rq)
             (AList.update ''api_key'' (JString k) (req_params rq))) evs)))"
  using assms unfolding search_title_def
  by (auto split: sum.splits prod.splits if_splits dest!: tmdb_get_frame)

lemma get_recommendations_frame:
  assumes "get_recommendations py e args w = (r, w')"
  shows "cache w' = cache w \<and>
     (\<exists>evs. trace w' = trace w @ evs \<and>
        (evs \<noteq> [] \<longrightarrow> (\<exists>rq k. get_recommendations_request py args = Inr rq \<and>
           list_all (is_network (req_path rq)
             (AList.update ''api_key'' (JString k) (req_params rq))) evs)))"
  using assms unfolding get_recommendations_def
  by (auto split: sum.splits prod.splits if_splits dest!: tmdb_get_frame)

lemma discover_frame:
  assumes "discover py e args w = (r, w')"
  shows "cache w' = cache w \<and>
     (\<exists>evs. trace w' = trace w @ evs \<and>
        (evs \<noteq> [] \<longrightarrow> (\<exists>rq k. discover_request py args = Inr rq \<and>
           list_all (is_network (req_path rq)
             (AList.update ''api_key'' (JString k) (req_params rq))) evs)))"
  using assms unfolding discover_def
  by (auto split: sum.splits prod.splits if_splits dest!: tmdb_get_frame)

lemma dispatch_frame:
  assumes "dispatch py e name args w = (r, w')"
  shows "cache w' = cache w \<and>
     (\<exists>evs. trace w' = trace w @ evs \<and>
        (evs \<noteq> [] \<longrightarrow> (\<exists>rq k. build_request py name args = Inr rq \<and>
           list_all (is_network (req_path rq)
             (AList.update ''api_key'' (JString k) (req_params rq))) evs)))"
  using assms search_title_frame [of py e args w r w']
    get_recommendations_frame [of py e args w r w'] discover_frame [of py e args w r w']
  by (auto simp: dispatch_def build_request_def split: if_splits)

lemma dispatch_rejected:
  "build_request py name args = Inl ex \<Longrightarrow> dispatch py e name args w = (Inl ex, w)"
  by (auto simp: dispatch_def build_request_def search_title_def get_recommendations_def
      discover_def split: if_splits)

lemma dispatch_success:
  assumes "dispatch py e name args w = (Inr result, w')"
  shows "accepts py name args \<and> (\<exists>results fetched_at. result = payload results fetched_at)"
  using assms
  by (auto simp: dispatch_def build_request_def accepts_def search_title_def
      get_recommendations_def discover_def split: if_splits sum.splits prod.splits)

lemma last_attempt_codes:
  "tmdb_attempts e path params [MAX_RETRIES] b w = (Inl (TMDBError m c s), w') \<Longrightarrow>
     c \<in> classified_codes"
  by (auto simp: classified_codes_def split: outcome.splits if_splits sum.splits)

lemma tmdb_attempts_codes:
  "tmdb_attempts e path params (as @ [MAX_RETRIES]) b w = (Inl (TMDBError m c s), w') \<Longrightarrow>
     c \<in> classified_codes"
proof (induction as arbitrary: b w)
  case Nil
  then show ?case using last_attempt_codes by simp
next
  case (Cons a as)
  show ?case using Cons.prems
    by (auto simp: classified_codes_def split: outcome.splits if_splits sum.splits
        dest!: Cons.IH)
qed

lemma tmdb_get_codes:
  assumes "tmdb_get e path params w = (Inl (TMDBError m c s), w')"
  shows "c \<in> classified_codes"
proof (cases "api_key e = None \<or> api_key e = Some []")
  case True
  with assms show ?thesis
    by (simp add: tmdb_get_unconfigured classified_codes_def)
next
  case False
  then obtain k where k: "api_key e = Some k" "k \<noteq> []" by auto
  have r: "[1, 2, 3] = [1, 2] @ [MAX_RETRIES]"
    by (simp add: MAX_RETRIES_def)
  from assms show ?thesis
    unfolding tmdb_get_configured [OF k] r by (rule tmdb_attempts_codes)
qed

lemma py_get_class: "py_get v k d \<noteq> Inl (TMDBError m c s)"
  by (cases v) (auto simp: no_attribute_def)

lemma py_iter_class: "py_iter v \<noteq> Inl (TMDBError m c s)"
  by (cases v) auto

lemma py_int_class: "py_int py v \<noteq> Inl (TMDBError m c s)"
  by (cases "(py, v)" rule: py_int.cases) (auto split: sum.splits)

lemma py_float_class: "py_float py v \<noteq> Inl (TMDBError m c s)"
  by (cases "(py, v)" rule: py_float.cases)
     (auto simp: float_of_int_def Let_def split: sum.splits)

lemma py_format_1f_class: "py_format_1f py v \<noteq> Inl (TMDBError m c s)"
  by (cases "(py, v)" rule: py_format_1f.cases)
     (auto simp: float_of_int_def Let_def split: sum.splits)

lemma py_split_first_class: "py_split_first v \<noteq> Inl (TMDBError m c s)"
  by (cases v) (auto simp: no_attribute_def)

lemma map_search_item_class: "map_search_item py item t \<noteq> Inl (TMDBError m c s)"
  using py_int_class [of py _ m c s] py_float_class [of py _ m c s]
    py_split_first_class [of _ m c s]
  by (auto simp: map_search_item_def Let_def no_attribute_def
      split: json.splits sum.splits option.splits if_splits)

lemma recommendation_item_class: "recommendation_item py t item \<noteq> Inl (TMDBError m c s)"
  using map_search_item_class [of py item t m c s] py_get_class [of item _ _ m c s]
    py_format_1f_class [of py _ m c s]
  by (auto simp: recommendation_item_def Let_def
      split: json.splits sum.splits option.splits if_splits)

lemma map_all_class:
  "(\<And>x. f x \<noteq> Inl (TMDBError m c s)) \<Longrightarrow> map_all f xs \<noteq> Inl (TMDBError m c s)"
  by (induction xs) (auto split: sum.splits)

lemma py_strip_class: "py_strip v \<noteq> Inl (TMDBError m c s)"
  by (cases v) (auto simp: no_attribute_def)

lemma request_codes:
  "build_request py name args = Inl (TMDBError m c s) \<Longrightarrow> c \<in> classified_codes"
  by (auto simp: build_request_def search_title_request_def get_recommendations_request_def
      discover_request_def classified_codes_def validation_error_def Let_def
      py_strip_class py_int_class
      split: if_splits sum.splits exn.splits exc_class.splits)

lemma dispatch_codes:
  assumes "dispatch py e name args w = (Inl (TMDBError m c s), w')"
  shows "c \<in> classified_codes"
proof (cases "build_request py name args")
  case (Inl ex)
  with assms dispatch_rejected [OF Inl, of e w] request_codes [of py name args m c s]
  show ?thesis by simp
next
  case (Inr rq)
  have t: "''TITLE_NOT_FOUND'' \<in> classified_codes" by (simp add: classified_codes_def)
  note cl = py_get_class py_iter_class map_all_class [OF map_search_item_class]
    map_all_class [OF recommendation_item_class]
  from assms Inr show ?thesis
    by (auto simp: dispatch_def build_request_def search_title_def get_recommendations_def
        discover_def t cl split: if_splits sum.splits prod.splits dest: tmdb_get_codes)
qed

section \<open>Cache lookups and the dispatcher\<close>

lemma cache_get_miss:
  "map_of (cache w) (cache_key name args) = None \<Longrightarrow>
   cache_get e name args w = (JNull, w\<lparr>trace := trace w @ [CacheRead (cache_key name args)]\<rparr>)"
  by (simp add: cache_get_def Let_def)

lemma cache_get_expired:
  "map_of (cache w) (cache_key name args) = Some (ts, data) \<Longrightarrow>
   clock e (ticks w) - ts > CACHE_TTL_SECONDS \<Longrightarrow>
   cache_get e name args w =
     (JNull, w\<lparr>cache := AList.delete (cache_key name args) (cache w), ticks := Suc (ticks w),
               trace := trace w @ [CacheRead (cache_key name args),
                                   CacheEvict (cache_key name args)]\<rparr>)"
  by (simp add: cache_get_def Let_def)

lemma cache_get_fresh:
  "map_of (cache w) (cache_key name args) = Some (ts, data) \<Longrightarrow>
   \<not> clock e (ticks w) - ts > CACHE_TTL_SECONDS \<Longrightarrow>
   cache_get e name args w =
     (data, w\<lparr>ticks := Suc (ticks w),
              trace := trace w @ [CacheRead (cache_key name args)]\<rparr>)"
  by (simp add: cache_get_def Let_def)

lemma cache_set_simp:
  "cache_set e name args data w =
     w\<lparr>cache := AList.update (cache_key name args) (clock e (ticks w), data) (cache w),
       ticks := Suc (ticks w),
       trace := trace w @ [CacheWrite (cache_key name args)]\<rparr>"
  by (simp add: cache_set_def Let_def)

lemma call_tool_try_hit:
  assumes "map_of (cache w) (cache_key name args) = Some (ts, data)"
    and "\<not> clock e (ticks w) - ts > CACHE_TTL_SECONDS" and "data \<noteq> JNull"
  shows "call_tool_try py e name args w =
     (Inr data, w\<lparr>ticks := ticks w + 2,
                  trace := trace w @ [CacheRead (cache_key name args)]\<rparr>)"
  using assms by (simp add: call_tool_try_def cache_get_fresh)

lemma call_tool_try_rejected:
  assumes "map_of (cache w) (cache_key name args) = None"
    and "build_request py name args = Inl ex"
  shows "call_tool_try py e name args w =
     (Inl ex, w\<lparr>trace := trace w @ [CacheRead (cache_key name args)]\<rparr>)"
  using assms by (simp add: call_tool_try_def cache_get_miss dispatch_rejected)

lemma call_tool_health:
  "call_tool py e ''health'' args w =
     (\<lparr>content = JObject
          [(''status'', JString ''ok''),
           (''tmdb_api_key_configured'',
              JBool (case api_key e of None \<Rightarrow> False | Some k \<Rightarrow> k \<noteq> [])),
           (''cache_entries'', JInt (int (length (cache w)))),
           (''timestamp_utc'', JString (utc_now e (ticks w)))],
       isError = False\<rparr>, w\<lparr>ticks := Suc (ticks w)\<rparr>)"
  by (simp add: call_tool_def)

lemma call_tool_other:
  "name \<noteq> ''health'' \<Longrightarrow>
   call_tool py e name args w =
     (case call_tool_try py e name args (w\<lparr>ticks := Suc (ticks w)\<rparr>) of
        (Inr result, w2) \<Rightarrow> (\<lparr>content = result, isError = False\<rparr>, w2)
      | (Inl ex, w2) \<Rightarrow> (handle_exn ex, w2))"
  by (simp add: call_tool_def)

text \<open>The three ways through the body of the \<open>try\<close> statement.\<close>

lemma call_tool_try_cases:
  assumes run: "call_tool_try py e name args w = (r, w')"
  obtains
    (hit) ts data where "map_of (cache w) (cache_key name args) = Some (ts, data)"
      "\<not> clock e (ticks w) - ts > CACHE_TTL_SECONDS" "data \<noteq> JNull" "r = Inr data"
      "w' = w\<lparr>ticks := ticks w + 2, trace := trace w @ [CacheRead (cache_key name args)]\<rparr>"
  | (failed) w1 ex where "cache_get e name args w = (JNull, w1)"
      "dispatch py e name args w1 = (Inl ex, w')" "r = Inl ex"
  | (fetched) w1 w2 result where "cache_get e name args w = (JNull, w1)"
      "dispatch py e name args w1 = (Inr result, w2)" "r = Inr result"
      "w' = w2\<lparr>cache := AList.update (cache_key name args) (clock e (ticks w2), result) (cache w2),
               ticks := ticks w2 + 2,
               trace := trace w2 @ [CacheWrite (cache_key name args)]\<rparr>"
proof (cases "cache_get e name args w")
  case (Pair cached w1)
  show ?thesis
  proof (cases "cached = JNull")
    case False
    from Pair False obtain ts data where
      e: "map_of (cache w) (cache_key name args) = Some (ts, data)"
        "\<not> clock e (ticks w) - ts > CACHE_TTL_SECONDS" "cached = data"
        "w1 = w\<lparr>ticks := Suc (ticks w), trace := trace w @ [CacheRead (cache_key name args)]\<rparr>"
      by (auto simp: cache_get_def Let_def split: option.splits if_splits)
    from run Pair False e show ?thesis
      by (intro hit [of ts data]) (auto simp: call_tool_try_def)
  next
    case True
    show ?thesis
    proof (cases "dispatch py e name args w1")
      case (Pair r2 w2)
      show ?thesis
      proof (cases r2)
        case (Inl ex)
        with run \<open>cache_get e name args w = (cached, w1)\<close> True Pair show ?thesis
          by (intro failed [of w1 ex]) (auto simp: call_tool_try_def)
      next
        case (Inr result)
        with run \<open>cache_get e name args w = (cached, w1)\<close> True Pair show ?thesis
          by (intro fetched [of w1 result w2]) (auto simp: call_tool_try_def cache_set_simp)
      qed
    qed
  qed
qed

lemma cache_get_null_cases:
  assumes "cache_get e name args w = (JNull, w1)"
  shows "ticks w1 \<ge> ticks w \<and>
    (\<exists>evs. trace w1 = trace w @ CacheRead (cache_key name args) # evs \<and>
        (evs = [] \<or> evs = [CacheEvict (cache_key name args)])) \<and>
    (cache w1 = cache w \<or> cache w1 = AList.delete (cache_key name args) (cache w))"
  using assms by (auto simp: cache_get_def Let_def split: option.splits if_splits)

section \<open>The cache invariant\<close>

lemma cache_inv_initial: "cache_inv py initial_world"
  by (simp add: cache_inv_def initial_world_def)

lemma cache_inv_delete:
  assumes inv: "cache_inv py w" and c: "cache w' = AList.delete key (cache w)"
  shows "cache_inv py w'"
proof -
  have d: "distinct (map fst (cache w'))"
    using inv c by (simp add: cache_inv_def distinct_delete)
  have "map_of (cache w) k = Some v" if "map_of (cache w') k = Some v" for k v
    using that c by (simp add: delete_conv split: if_splits)
  with inv d show ?thesis unfolding cache_inv_def by blast
qed

lemma cache_inv_update:
  assumes inv: "cache_inv py w"
    and c: "cache w' = AList.update (cache_key name args) (ts, payload results t) (cache w)"
    and acc: "accepts py name args"
  shows "cache_inv py w'"
proof -
  have d: "distinct (map fst (cache w'))"
    using inv c by (simp add: cache_inv_def distinct_update)
  have "(\<exists>results fetched_at. data = payload results fetched_at) \<and>
        (\<forall>a. sort_keys (JObject a) = k \<longrightarrow> accepts py n a)"
    if h: "map_of (cache w') (n, k) = Some (ts', data)" for n k ts' data
  proof (cases "(n, k) = cache_key name args")
    case True
    with h c have "data = payload results t" by (simp add: update_conv)
    moreover have "accepts py n a" if "sort_keys (JObject a) = k" for a
    proof -
      from True that have "n = name" "sort_keys (JObject a) = sort_keys (JObject args)"
        by (simp_all add: cache_key_def)
      with accepts_sort_keys [of a args py name] acc show ?thesis by simp
    qed
    ultimately show ?thesis by blast
  next
    case False
    with h c have "map_of (cache w) (n, k) = Some (ts', data)"
      by (simp add: update_conv)
    with inv show ?thesis unfolding cache_inv_def by blast
  qed
  with d show ?thesis unfolding cache_inv_def by blast
qed

lemma cache_get_null_inv:
  assumes "cache_get e name args w = (JNull, w1)" and inv: "cache_inv py w"
  shows "cache_inv py w1"
proof -
  from cache_get_null_cases [OF assms(1)]
  have "cache w1 = cache w \<or> cache w1 = AList.delete (cache_key name args) (cache w)"
    by blast
  then show ?thesis
  proof
    assume "cache w1 = cache w"
    with inv show ?thesis by (simp add: cache_inv_def)
  next
    assume "cache w1 = AList.delete (cache_key name args) (cache w)"
    with inv show ?thesis by (rule cache_inv_delete)
  qed
qed

lemma call_tool_try_inv:
  assumes inv: "cache_inv py w" and run: "call_tool_try py e name args w = (r, w')"
  shows "cache_inv py w'"
  using run
proof (cases rule: call_tool_try_cases)
  case (hit ts data)
  with inv show ?thesis by (simp add: cache_inv_def)
next
  case (failed w1 ex)
  from cache_get_null_inv [OF failed(1) inv] have "cache_inv py w1" .
  moreover from dispatch_frame [OF failed(2)] have "cache w' = cache w1" by simp
  ultimately show ?thesis by (simp add: cache_inv_def)
next
  case (fetched w1 w2 result)
  from cache_get_null_inv [OF fetched(1) inv] have "cache_inv py w1" .
  moreover from dispatch_frame [OF fetched(2)] have "cache w2 = cache w1" by simp
  ultimately have i2: "cache_inv py w2" by (simp add: cache_inv_def)
  from dispatch_success [OF fetched(2)] obtain results t
    where s: "accepts py name args" "result = payload results t" by blast
  show ?thesis
    by (rule cache_inv_update [OF i2 _ s(1), of _ "clock e (ticks w2)" results t])
       (simp add: fetched(4) s(2))
qed

lemma call_tool_inv:
  assumes inv: "cache_inv py w"
  shows "cache_inv py (snd (call_tool py e name args w))"
proof (cases "name = ''health''")
  case True
  with inv show ?thesis
    by (simp add: call_tool_health cache_inv_def)
next
  case False
  let ?w0 = "w\<lparr>ticks := Suc (ticks w)\<rparr>"
  have i0: "cache_inv py ?w0" using inv by (simp add: cache_inv_def)
  obtain r w' where run: "call_tool_try py e name args ?w0 = (r, w')"
    by (cases "call_tool_try py e name args ?w0")
  from call_tool_try_inv [OF i0 run] have "cache_inv py w'" .
  with False run show ?thesis
    by (cases r) (simp_all add: call_tool_other)
qed

lemma reachable_inv: "reachable py e w \<Longrightarrow> cache_inv py w"
  by (induction rule: reachable.induct) (auto intro: cache_inv_initial call_tool_inv)

lemma inv_miss:
  assumes "cache_inv py w" and "\<not> accepts py name args"
  shows "map_of (cache w) (cache_key name args) = None"
proof (cases "map_of (cache w) (cache_key name args)")
  case None
  then show ?thesis .
next
  case (Some en)
  obtain ts data where "en = (ts, data)" by (cases en)
  with Some assms(1) have "accepts py name args"
    unfolding cache_inv_def cache_key_def by blast
  with assms(2) show ?thesis by simp
qed

section \<open>discover and the genre argument\<close>

lemma discover_request_genre:
  assumes "\<forall>k. k \<noteq> ''genre'' \<longrightarrow> map_of args' k = map_of args k"
  shows "discover_request py args' = discover_request py args"
proof -
  have "dict_get args' k = dict_get args k" if "k \<noteq> ''genre''" for k
    using assms that by (simp add: dict_get_def dict_get_default_def)
  then show ?thesis
    by (simp add: discover_request_def Let_def)
qed

lemma discover_request_params:
  "discover_request py args = Inr rq \<Longrightarrow> fst ` set (req_params rq) \<subseteq> discover_param_names"
  by (auto simp: discover_request_def Let_def discover_param_names_def split: if_splits)

lemma set_update_keys: "fst ` set (AList.update k v al) \<subseteq> insert k (fst ` set al)"
  by (induction al) auto

text \<open>
  Claim C9. Whatever the \<open>genre\<close> argument of a \<open>discover\<close> call is, the operation does
  the same: two argument objects that agree on every key other than \<open>genre\<close> give the same
  request, the same result and the same effects, so the genre is neither rejected nor
  forwarded. The parameters of every request sent are among \<open>language\<close>,
  \<open>include_adult\<close>, \<open>sort_by\<close>, the year filter and the credential.
\<close>

theorem discover_never_forwards_genre:
  assumes same: "\<forall>k. k \<noteq> ''genre'' \<longrightarrow> map_of args' k = map_of args k"
  shows "discover_request py args' = discover_request py args
       \<and> discover py e args' w = discover py e args w
       \<and> (\<forall>path params out.
             HttpGet path params out \<in> set (new_events w (snd (discover py e args w)))
             \<longrightarrow> fst ` set params \<subseteq> insert ''api_key'' discover_param_names)"
proof -
  have rq: "discover_request py args' = discover_request py args"
    using same by (rule discover_request_genre)
  then have run: "discover py e args' w = discover py e args w"
    by (simp add: discover_def)
  obtain r w' where d: "discover py e args w = (r, w')"
    by (cases "discover py e args w")
  from discover_frame [OF d] obtain evs where
    evs: "trace w' = trace w @ evs"
      "evs \<noteq> [] \<longrightarrow> (\<exists>rq k. discover_request py args = Inr rq \<and>
         list_all (is_network (req_path rq)
           (AList.update ''api_key'' (JString k) (req_params rq))) evs)"
    by blast
  have "fst ` set params \<subseteq> insert ''api_key'' discover_param_names"
    if h: "HttpGet path params out \<in> set evs" for path params out
  proof -
    from h have "evs \<noteq> []" by auto
    with evs(2) obtain rq k where
      r: "discover_request py args = Inr rq"
        "list_all (is_network (req_path rq)
           (AList.update ''api_key'' (JString k) (req_params rq))) evs"
      by blast
    from r(2) h have "params = AList.update ''api_key'' (JString k) (req_params rq)"
      by (auto simp: list_all_iff)
    with set_update_keys [of "''api_key''" "JString k" "req_params rq"]
      discover_request_params [OF r(1)]
    show ?thesis by auto
  qed
  with evs(1) d rq run show ?thesis
    by (simp add: new_events_def)
qed

theorem discover_never_forwards_genre_witness:
  "discover sample_builtins (env_ok no_results)
         [(''type'', JString ''movie''), (''genre'', JArray [JString ''Drama''])] initial_world =
       discover sample_builtins (env_ok no_results) [(''type'', JString ''movie'')] initial_world
   \<and> new_events initial_world
         (snd (discover sample_builtins (env_ok no_results) [(''type'', JString ''movie'')]
                initial_world)) =
       [HttpGet ''/discover/movie''
          [(''language'', JString ''en-US''), (''include_adult'', JBool False),
           (''sort_by'', JString ''popularity.desc''), (''api_key'', JString ''secret'')]
          (Response 200 (Inr no_results))]
   \<and> fst ` set [(''language'', JString ''en-US''), (''include_adult'', JBool False),
                 (''sort_by'', JString ''popularity.desc''), (''api_key'', JString ''secret'')]
       \<subseteq> insert ''api_key'' discover_param_names"
proof -
  have same: "\<forall>k. k \<noteq> ''genre'' \<longrightarrow>
       map_of [(''type'', JString ''movie''), (''genre'', JArray [JString ''Drama''])] k =
       map_of [(''type'', JString ''movie'')] k"
    by simp
  have ev: "new_events initial_world
         (snd (discover sample_builtins (env_ok no_results) [(''type'', JString ''movie'')]
                initial_world)) =
       [HttpGet ''/discover/movie''
          [(''language'', JString ''en-US''), (''include_adult'', JBool False),
           (''sort_by'', JString ''popularity.desc''), (''api_key'', JString ''secret'')]
          (Response 200 (Inr no_results))]"
    by code_simp
  from discover_never_forwards_genre [OF same, of sample_builtins "env_ok no_results" initial_world]
  show ?thesis by (simp add: ev)
qed

text \<open>
  Claim C2. Let an operation's request be built and let the upstream client return for it
  a body whose \<open>results\<close> field is the empty list. Then \<open>search_title\<close> raises the error
  with code \<open>TITLE_NOT_FOUND\<close> and status 404, while \<open>get_recommendations\<close> and \<open>discover\<close>
  return a payload whose \<open>results\<close> field is the empty list.
\<close>

theorem zero_results:
  assumes fetch: "tmdb_get e (req_path rq) (req_params rq) w = (Inr (JObject body), w1)"
    and empty: "map_of body ''results'' = Some (JArray [])"
  shows "(search_title_request py args = Inr rq \<longrightarrow>
            search_title py e args w =
              (Inl (TMDBError (''No results for query '' @ quoted (req_query rq))
                      ''TITLE_NOT_FOUND'' 404), w1))
       \<and> (get_recommendations_request py args = Inr rq \<longrightarrow>
            get_recommendations py e args w =
              (Inr (JObject [(''results'', JArray []), (''source'', JString ''TMDB''),
                             (''fetched_at'', JFloat (Fin (clock e (ticks w1))))]),
               w1\<lparr>ticks := Suc (ticks w1)\<rparr>))
       \<and> (discover_request py args = Inr rq \<longrightarrow>
            discover py e args w =
              (Inr (JObject [(''results'', JArray []), (''source'', JString ''TMDB''),
                             (''fetched_at'', JFloat (Fin (clock e (ticks w1))))]),
               w1\<lparr>ticks := Suc (ticks w1)\<rparr>))"
  using fetch empty
  by (simp add: search_title_def get_recommendations_def discover_def dict_get_default_def
      payload_def)

theorem zero_results_witness:
  "search_title sample_builtins (env_ok no_results) [(''query'', JString ''Nothing'')]
     initial_world =
     (Inl (TMDBError (''No results for query '' @ quoted ''Nothing'') ''TITLE_NOT_FOUND'' 404),
      snd (tmdb_get (env_ok no_results) ''/search/movie''
             [(''query'', JString ''Nothing''), (''language'', JString ''en-US''),
              (''include_adult'', JBool False)] initial_world))
   \<and> fst (get_recommendations sample_builtins (env_ok no_results)
            [(''id'', JInt 27205), (''type'', JString ''movie'')] initial_world) =
       Inr (JObject [(''results'', JArray []), (''source'', JString ''TMDB''),
                     (''fetched_at'', JFloat (Fin 1000))])
   \<and> fst (discover sample_builtins (env_ok no_results) [(''type'', JString ''tv'')]
            initial_world) =
       Inr (JObject [(''results'', JArray []), (''source'', JString ''TMDB''),
                     (''fetched_at'', JFloat (Fin 1000))])"
proof -
  let ?e = "env_ok no_results"
  let ?body = "[(''page'', JInt 1), (''results'', JArray [])]"
  have empty: "map_of ?body ''results'' = Some (JArray [])" by simp
  let ?a1 = "[(''query'', JString ''Nothing'')]"
  let ?r1 = "\<lparr>req_path = ''/search/movie'',
              req_params = [(''query'', JString ''Nothing''), (''language'', JString ''en-US''),
                            (''include_adult'', JBool False)],
              req_type = JString ''movie'', req_query = ''Nothing''\<rparr>"
  have q1: "search_title_request sample_builtins ?a1 = Inr ?r1" by code_simp
  have f1: "tmdb_get ?e (req_path ?r1) (req_params ?r1) initial_world =
      (Inr (JObject ?body), snd (tmdb_get ?e (req_path ?r1) (req_params ?r1) initial_world))"
    by code_simp
  let ?a2 = "[(''id'', JInt 27205), (''type'', JString ''movie'')]"
  let ?r2 = "\<lparr>req_path = ''/movie/27205/recommendations'',
              req_params = [(''language'', JString ''en-US'')],
              req_type = JString ''movie'', req_query = []\<rparr>"
  have q2: "get_recommendations_request sample_builtins ?a2 = Inr ?r2" by code_simp
  have f2: "tmdb_get ?e (req_path ?r2) (req_params ?r2) initial_world =
      (Inr (JObject ?body), snd (tmdb_get ?e (req_path ?r2) (req_params ?r2) initial_world))"
    by code_simp
  have t2: "clock ?e (ticks (snd (tmdb_get ?e (req_path ?r2) (req_params ?r2) initial_world)))
      = 1000"
    by code_simp
  let ?a3 = "[(''type'', JString ''tv'')]"
  let ?r3 = "\<lparr>req_path = ''/discover/tv'',
              req_params = [(''language'', JString ''en-US''), (''include_adult'', JBool False),
                            (''sort_by'', JString ''popularity.desc'')],
              req_type = JString ''tv'', req_query = []\<rparr>"
  have q3: "discover_request sample_builtins ?a3 = Inr ?r3" by code_simp
  have f3: "tmdb_get ?e (req_path ?r3) (req_params ?r3) initial_world =
      (Inr (JObject ?body), snd (tmdb_get ?e (req_path ?r3) (req_params ?r3) initial_world))"
    by code_simp
  have t3: "clock ?e (ticks (snd (tmdb_get ?e (req_path ?r3) (req_params ?r3) initial_world)))
      = 1000"
    by code_simp
  from zero_results [OF f1 empty, of sample_builtins ?a1] q1
  have c1: "search_title sample_builtins ?e ?a1 initial_world =
     (Inl (TMDBError (''No results for query '' @ quoted ''Nothing'') ''TITLE_NOT_FOUND'' 404),
      snd (tmdb_get ?e ''/search/movie''
             [(''query'', JString ''Nothing''), (''language'', JString ''en-US''),
              (''include_adult'', JBool False)] initial_world))"
    by simp
  from zero_results [OF f2 empty, of sample_builtins ?a2] q2 t2
  have c2: "fst (get_recommendations sample_builtins ?e ?a2 initial_world) =
       Inr (JObject [(''results'', JArray []), (''source'', JString ''TMDB''),
                     (''fetched_at'', JFloat (Fin 1000))])"
    by simp
  from zero_results [OF f3 empty, of sample_builtins ?a3] q3 t3
  have c3: "fst (discover sample_builtins ?e ?a3 initial_world) =
       Inr (JObject [(''results'', JArray []), (''source'', JString ''TMDB''),
                     (''fetched_at'', JFloat (Fin 1000))])"
    by simp
  from c1 c2 c3 show ?thesis by blast
qed

section \<open>The normaliser\<close>

text \<open>
  Claim C3, as stated: the normaliser returns an item for every provider record. It does
  not: on the empty record \<open>item["id"]\<close> raises \<open>KeyError\<close>.
\<close>

theorem map_search_item_raises_on_empty_record:
  "map_search_item sample_builtins (JObject []) (JString ''movie'') =
     Inl (PyExc KeyError (quoted ''id''))"
  by code_simp

text \<open>
  Claim C3, amended. The normaliser has no effect on the state. It returns an item for
  every provider record that has an \<open>id\<close> which \<open>int()\<close> converts, whose date field (the
  first truthy one of \<open>release_date\<close> and \<open>first_air_date\<close>), if any, is a string whose
  text before the first hyphen \<open>int()\<close> converts, and whose \<open>vote_average\<close>, if truthy, is
  one \<open>float()\<close> converts. The item has exactly the fields \<open>id\<close>, \<open>title\<close>, \<open>type\<close>,
  \<open>year\<close>, \<open>rating\<close>, \<open>overview\<close> and \<open>poster_path\<close>. Its title is the first truthy one of
  \<open>title\<close> and \<open>name\<close>, else the empty string; its year is the converted date prefix, or
  none when no date field is truthy; its rating is the converted \<open>vote_average\<close>, or 0.0
  when that is missing or falsy. A record without \<open>overview\<close> gives the empty overview and
  a record without \<open>poster_path\<close> gives no poster; an \<open>overview\<close> or \<open>poster_path\<close> that
  is present is passed on as it is, whatever its value.
\<close>

theorem map_search_item_defaults:
  assumes ident: "map_of d ''id'' = Some v" "py_int py v = Inr i"
    and date: "\<not> truthy (py_or (dict_get d ''release_date'') (dict_get d ''first_air_date''))
               \<or> (\<exists>s y. py_or (dict_get d ''release_date'') (dict_get d ''first_air_date'')
                           = JString s
                         \<and> int_of_str py (takeWhile (\<lambda>c. c \<noteq> CHR ''-'') s) = Inr y)"
    and vote: "\<not> truthy (dict_get d ''vote_average'')
               \<or> (\<exists>f. py_float py (dict_get d ''vote_average'') = Inr f)"
  shows "\<exists>title year rating overview poster.
           map_search_item py (JObject d) item_type =
             Inr (JObject [(''id'', JInt i), (''title'', title), (''type'', item_type),
                           (''year'', year), (''rating'', JFloat rating),
                           (''overview'', overview), (''poster_path'', poster)])
         \<and> (truthy (dict_get d ''title'') \<longrightarrow> title = dict_get d ''title'')
         \<and> (\<not> truthy (dict_get d ''title'') \<and> truthy (dict_get d ''name'')
              \<longrightarrow> title = dict_get d ''name'')
         \<and> (\<not> truthy (dict_get d ''title'') \<and> \<not> truthy (dict_get d ''name'')
              \<longrightarrow> title = JString [])
         \<and> (\<not> truthy (py_or (dict_get d ''release_date'') (dict_get d ''first_air_date''))
              \<longrightarrow> year = JNull)
         \<and> (\<forall>s y. truthy (py_or (dict_get d ''release_date'') (dict_get d ''first_air_date''))
                  \<and> py_or (dict_get d ''release_date'') (dict_get d ''first_air_date'')
                      = JString s
                  \<and> int_of_str py (takeWhile (\<lambda>c. c \<noteq> CHR ''-'') s) = Inr y
              \<longrightarrow> year = JInt y)
         \<and> (\<not> truthy (dict_get d ''vote_average'') \<longrightarrow> rating = Fin 0)
         \<and> (truthy (dict_get d ''vote_average'')
              \<longrightarrow> py_float py (dict_get d ''vote_average'') = Inr rating)
         \<and> (map_of d ''overview'' = None \<longrightarrow> overview = JString [])
         \<and> (\<forall>x. map_of d ''overview'' = Some x \<longrightarrow> overview = x)
         \<and> (map_of d ''poster_path'' = None \<longrightarrow> poster = JNull)
         \<and> (\<forall>x. map_of d ''poster_path'' = Some x \<longrightarrow> poster = x)"
proof -
  let ?date = "py_or (dict_get d ''release_date'') (dict_get d ''first_air_date'')"
  let ?year = "if truthy ?date
               then (case py_split_first ?date of
                       Inl ex \<Rightarrow> Inl ex
                     | Inr s \<Rightarrow> (case py_int py (JString s) of
                                  Inl ex \<Rightarrow> Inl ex | Inr y \<Rightarrow> Inr (JInt y)))
               else Inr JNull"
  from date obtain year where y: "?year = Inr year" "\<not> truthy ?date \<longrightarrow> year = JNull"
    "\<forall>s y. truthy ?date \<and> ?date = JString s
        \<and> int_of_str py (takeWhile (\<lambda>c. c \<noteq> CHR ''-'') s) = Inr y \<longrightarrow> year = JInt y"
    by (cases "truthy ?date") auto
  let ?vote = "py_or (dict_get d ''vote_average'') (JFloat (Fin 0))"
  from vote obtain rating where
    r: "py_float py ?vote = Inr rating" "\<not> truthy (dict_get d ''vote_average'') \<longrightarrow> rating = Fin 0"
      "truthy (dict_get d ''vote_average'')
         \<longrightarrow> py_float py (dict_get d ''vote_average'') = Inr rating"
    by (cases "truthy (dict_get d ''vote_average'')") (auto simp: py_or_def)
  let ?title = "py_or (py_or (dict_get d ''title'') (dict_get d ''name'')) (JString [])"
  have m: "map_search_item py (JObject d) item_type =
      Inr (JObject [(''id'', JInt i), (''title'', ?title),
                    (''type'', item_type), (''year'', year), (''rating'', JFloat rating),
                    (''overview'', dict_get_default d ''overview'' (JString [])),
                    (''poster_path'', dict_get d ''poster_path'')])"
    using y(1) r(1) ident
    by (cases "truthy ?date") (simp_all add: map_search_item_def Let_def)
  have t: "truthy (dict_get d ''title'') \<longrightarrow> ?title = dict_get d ''title''"
    "\<not> truthy (dict_get d ''title'') \<and> truthy (dict_get d ''name'')
       \<longrightarrow> ?title = dict_get d ''name''"
    "\<not> truthy (dict_get d ''title'') \<and> \<not> truthy (dict_get d ''name'')
       \<longrightarrow> ?title = JString []"
    by (simp_all add: py_or_def)
  have o: "map_of d ''overview'' = None
             \<longrightarrow> dict_get_default d ''overview'' (JString []) = JString []"
    "\<forall>x. map_of d ''overview'' = Some x
             \<longrightarrow> dict_get_default d ''overview'' (JString []) = x"
    by (simp_all add: dict_get_default_def)
  have p: "map_of d ''poster_path'' = None \<longrightarrow> dict_get d ''poster_path'' = JNull"
    "\<forall>x. map_of d ''poster_path'' = Some x \<longrightarrow> dict_get d ''poster_path'' = x"
    by (simp_all add: dict_get_def dict_get_default_def)
  show ?thesis
    unfolding m using t o p y(2,3) r(2,3) by simp
qed

theorem map_search_item_defaults_witness:
  "map_of [(''id'', JString ''42''), (''name'', JString []), (''vote_average'', JNull),
           (''overview'', JNull)] ''id'' = Some (JString ''42'')
   \<and> py_int sample_builtins (JString ''42'') = Inr 42
   \<and> map_search_item sample_builtins
         (JObject [(''id'', JString ''42''), (''name'', JString []), (''vote_average'', JNull),
                   (''overview'', JNull)])
         (JString ''tv'') =
       Inr (JObject [(''id'', JInt 42), (''title'', JString []), (''type'', JString ''tv''),
                     (''year'', JNull), (''rating'', JFloat (Fin 0)),
                     (''overview'', JNull), (''poster_path'', JNull)])"
proof -
  let ?d = "[(''id'', JString ''42''), (''name'', JString []), (''vote_average'', JNull),
             (''overview'', JNull)]"
  have i1: "map_of ?d ''id'' = Some (JString ''42'')" by simp
  have i2: "py_int sample_builtins (JString ''42'') = Inr 42" by code_simp
  have dt: "\<not> truthy (py_or (dict_get ?d ''release_date'') (dict_get ?d ''first_air_date''))"
    by code_simp
  have vt: "\<not> truthy (dict_get ?d ''vote_average'')" by code_simp
  have t: "\<not> truthy (dict_get ?d ''title'') \<and> \<not> truthy (dict_get ?d ''name'')" by code_simp
  have o: "map_of ?d ''overview'' = Some JNull" "map_of ?d ''poster_path'' = None" by simp_all
  from map_search_item_defaults [OF i1 i2 disjI1 [OF dt] disjI1 [OF vt], of "JString ''tv''"]
    dt vt t o i1 i2
  show ?thesis by auto
qed

section \<open>Expiry\<close>

lemma call_tool_try_other_keys:
  assumes "call_tool_try py e name args w = (r, w')" and "k \<noteq> cache_key name args"
  shows "map_of (cache w') k = map_of (cache w) k"
  using assms(1)
proof (cases rule: call_tool_try_cases)
  case (hit ts data)
  then show ?thesis by simp
next
  case (failed w1 ex)
  from cache_get_null_cases [OF failed(1)] assms(2)
  have "map_of (cache w1) k = map_of (cache w) k"
    by (auto simp: delete_conv)
  with dispatch_frame [OF failed(2)] show ?thesis by simp
next
  case (fetched w1 w2 result)
  from cache_get_null_cases [OF fetched(1)] assms(2)
  have "map_of (cache w1) k = map_of (cache w) k"
    by (auto simp: delete_conv)
  with dispatch_frame [OF fetched(2)] fetched(4) assms(2) show ?thesis
    by (simp add: update_conv)
qed

lemma call_tool_other_keys:
  assumes "k \<noteq> cache_key name args"
  shows "map_of (cache (snd (call_tool py e name args w))) k = map_of (cache w) k"
proof (cases "name = ''health''")
  case True
  then show ?thesis by (simp add: call_tool_health)
next
  case False
  let ?w0 = "w\<lparr>ticks := Suc (ticks w)\<rparr>"
  obtain r w' where run: "call_tool_try py e name args ?w0 = (r, w')"
    by (cases "call_tool_try py e name args ?w0")
  from call_tool_try_other_keys [OF run assms] have "map_of (cache w') k = map_of (cache w) k"
    by simp
  with False run show ?thesis
    by (cases r) (simp_all add: call_tool_other)
qed

text \<open>
  Claim C5. A lookup made when the clock reads more than 300 seconds past an entry's
  timestamp answers absent and removes that entry, leaving every other entry in place;
  the dispatcher then runs the operation afresh and returns what it returns. An entry not
  older than that is returned and kept. Nothing else removes entries: a tool call leaves
  the entries under all keys other than its own as they were, whatever their age.
\<close>

theorem cache_entry_expires_at_read:
  assumes entry: "map_of (cache w) (cache_key name args) = Some (ts, data)"
  shows "CACHE_TTL_SECONDS = 300
       \<and> (clock e (ticks w) - ts > CACHE_TTL_SECONDS \<longrightarrow>
            fst (cache_get e name args w) = JNull
          \<and> map_of (cache (snd (cache_get e name args w))) (cache_key name args) = None
          \<and> (\<forall>k. k \<noteq> cache_key name args \<longrightarrow>
                 map_of (cache (snd (cache_get e name args w))) k = map_of (cache w) k)
          \<and> fst (call_tool_try py e name args w) =
              fst (dispatch py e name args (snd (cache_get e name args w))))
       \<and> (clock e (ticks w) - ts \<le> CACHE_TTL_SECONDS \<longrightarrow>
            fst (cache_get e name args w) = data
          \<and> cache (snd (cache_get e name args w)) = cache w)
       \<and> (\<forall>name' args' k. k \<noteq> cache_key name' args' \<longrightarrow>
             map_of (cache (snd (call_tool py e name' args' w))) k = map_of (cache w) k)"
proof -
  have ttl: "CACHE_TTL_SECONDS = 300" by (simp add: CACHE_TTL_SECONDS_def)
  have old: "fst (cache_get e name args w) = JNull
          \<and> map_of (cache (snd (cache_get e name args w))) (cache_key name args) = None
          \<and> (\<forall>k. k \<noteq> cache_key name args \<longrightarrow>
                 map_of (cache (snd (cache_get e name args w))) k = map_of (cache w) k)
          \<and> fst (call_tool_try py e name args w) =
              fst (dispatch py e name args (snd (cache_get e name args w)))"
    if h: "clock e (ticks w) - ts > CACHE_TTL_SECONDS"
  proof -
    note g = cache_get_expired [OF entry h]
    have "fst (call_tool_try py e name args w) =
          fst (dispatch py e name args (snd (cache_get e name args w)))"
      by (simp add: call_tool_try_def g split: prod.splits sum.splits)
    then show ?thesis by (simp add: g delete_conv)
  qed
  have fresh: "fst (cache_get e name args w) = data
          \<and> cache (snd (cache_get e name args w)) = cache w"
    if h: "clock e (ticks w) - ts \<le> CACHE_TTL_SECONDS"
  proof -
    from h have "\<not> clock e (ticks w) - ts > CACHE_TTL_SECONDS" by simp
    from cache_get_fresh [OF entry this] show ?thesis by simp
  qed
  from ttl old fresh call_tool_other_keys show ?thesis by blast
qed

theorem cache_entry_expires_at_read_witness:
  "map_of (cache (world_with_entry (cache_key ''discover'' [(''type'', JString ''tv'')]) 100
                   (payload [] 99)))
      (cache_key ''discover'' [(''type'', JString ''tv'')]) = Some (100, payload [] 99)
   \<and> clock (env_ok no_results)
        (ticks (world_with_entry (cache_key ''discover'' [(''type'', JString ''tv'')]) 100
                  (payload [] 99))) - 100 > CACHE_TTL_SECONDS
   \<and> fst (cache_get (env_ok no_results) ''discover'' [(''type'', JString ''tv'')]
            (world_with_entry (cache_key ''discover'' [(''type'', JString ''tv'')]) 100
               (payload [] 99))) = JNull
   \<and> map_of (cache (snd (cache_get (env_ok no_results) ''discover'' [(''type'', JString ''tv'')]
            (world_with_entry (cache_key ''discover'' [(''type'', JString ''tv'')]) 100
               (payload [] 99)))))
        (cache_key ''discover'' [(''type'', JString ''tv'')]) = None
   \<and> map_of (cache (world_with_entry (cache_key ''discover'' [(''type'', JString ''tv'')]) 700
                   (payload [] 699)))
      (cache_key ''discover'' [(''type'', JString ''tv'')]) = Some (700, payload [] 699)
   \<and> clock (env_ok no_results)
        (ticks (world_with_entry (cache_key ''discover'' [(''type'', JString ''tv'')]) 700
                  (payload [] 699))) - 700 \<le> CACHE_TTL_SECONDS
   \<and> fst (cache_get (env_ok no_results) ''discover'' [(''type'', JString ''tv'')]
            (world_with_entry (cache_key ''discover'' [(''type'', JString ''tv'')]) 700
               (payload [] 699))) = payload [] 699"
proof -
  let ?k = "cache_key ''discover'' [(''type'', JString ''tv'')]"
  let ?e = "env_ok no_results"
  let ?w1 = "world_with_entry ?k 100 (payload [] 99)"
  let ?w2 = "world_with_entry ?k 700 (payload [] 699)"
  have e1: "map_of (cache ?w1) ?k = Some (100, payload [] 99)"
    by (simp add: world_with_entry_def initial_world_def)
  have e2: "map_of (cache ?w2) ?k = Some (700, payload [] 699)"
    by (simp add: world_with_entry_def initial_world_def)
  have c1: "clock ?e (ticks ?w1) - 100 > CACHE_TTL_SECONDS"
    by (simp add: world_with_entry_def initial_world_def env_ok_def env_always_def
        CACHE_TTL_SECONDS_def)
  have c2: "clock ?e (ticks ?w2) - 700 \<le> CACHE_TTL_SECONDS"
    by (simp add: world_with_entry_def initial_world_def env_ok_def env_always_def
        CACHE_TTL_SECONDS_def)
  from cache_entry_expires_at_read [OF e1, of ?e sample_builtins]
    cache_entry_expires_at_read [OF e2, of ?e sample_builtins] e1 e2 c1 c2
  show ?thesis by simp
qed

section \<open>Key order\<close>

lemma filter_same_key:
  "distinct (map fst zs) \<Longrightarrow> k \<in> set zs \<Longrightarrow> filter (\<lambda>x. fst k = fst x) zs = [k]"
proof (induction zs)
  case Nil
  then show ?case by simp
next
  case (Cons z zs)
  show ?case
  proof (cases "k = z")
    case True
    have "filter (\<lambda>x. fst z = fst x) zs = []"
      using Cons.prems(1) by (auto simp: filter_empty_conv)
    with True show ?thesis by simp
  next
    case False
    with Cons.prems have "k \<in> set zs" "fst k \<noteq> fst z"
      by (auto simp: image_iff)
    with Cons show ?thesis by simp
  qed
qed

lemma distinct_keys_mset:
  assumes "mset xs = mset ys" and "distinct (map fst xs)"
  shows "distinct (map fst ys)"
proof -
  from assms(1) have "mset (map fst xs) = mset (map fst ys)"
    by (simp only: mset_map)
  from mset_eq_imp_distinct_iff [OF this] assms(2) show ?thesis by simp
qed

lemma sort_key_permutation:
  assumes "mset xs = mset ys" and "distinct (map fst xs)"
  shows "sort_key fst xs = sort_key fst ys"
proof (rule properties_for_sort_key)
  show "mset (sort_key fst ys) = mset xs" using assms(1) by simp
  show "sorted (map fst (sort_key fst ys))" by simp
  show "filter (\<lambda>x. fst k = fst x) (sort_key fst ys) = filter (\<lambda>x. fst k = fst x) xs"
    if "k \<in> set (sort_key fst ys)" for k
  proof -
    from that assms(1) have kx: "k \<in> set xs"
      by (auto dest: mset_eq_setD)
    have "mset xs = mset (sort_key fst ys)" using assms(1) by simp
    from distinct_keys_mset [OF this assms(2)]
    have ds: "distinct (map fst (sort_key fst ys))" .
    from filter_same_key [OF ds that] filter_same_key [OF assms(2) kx] show ?thesis by simp
  qed
qed

lemma cache_key_permutation:
  assumes "mset args' = mset args" and "distinct (map fst args)"
  shows "cache_key name args' = cache_key name args"
proof -
  let ?g = "\<lambda>kv. (fst kv, sort_keys (snd kv))"
  have m: "mset (map ?g args) = mset (map ?g args')"
    using assms(1) by (simp only: mset_map)
  have d: "distinct (map fst (map ?g args))"
    using assms(2) by (simp add: comp_def)
  from sort_key_permutation [OF m d] show ?thesis
    by (simp add: cache_key_def)
qed

lemma handle_exn_is_error [simp]: "isError (handle_exn ex)"
  by (cases ex) simp_all

lemma call_tool_success_entry:
  assumes "name \<noteq> ''health''" and run: "call_tool py e name args w = (r, w1)"
    and ok: "\<not> isError r"
  shows "\<exists>ts. map_of (cache w1) (cache_key name args) = Some (ts, content r)
              \<and> content r \<noteq> JNull"
proof -
  let ?w0 = "w\<lparr>ticks := Suc (ticks w)\<rparr>"
  obtain r0 w' where t: "call_tool_try py e name args ?w0 = (r0, w')"
    by (cases "call_tool_try py e name args ?w0")
  from t show ?thesis
  proof (cases rule: call_tool_try_cases)
    case (hit ts data)
    with run t assms(1) show ?thesis by (auto simp: call_tool_other)
  next
    case (failed w2 ex)
    with run t assms(1) ok show ?thesis by (auto simp: call_tool_other)
  next
    case (fetched w2 w3 result)
    from dispatch_success [OF fetched(2)] have "result \<noteq> JNull"
      by (auto simp: payload_def)
    with fetched run t assms(1) show ?thesis by (auto simp: call_tool_other update_conv)
  qed
qed

lemma call_tool_hit:
  assumes "name \<noteq> ''health''"
    and "map_of (cache w) (cache_key name args) = Some (ts, data)" and "data \<noteq> JNull"
    and "clock e (Suc (ticks w)) - ts \<le> CACHE_TTL_SECONDS"
  shows "call_tool py e name args w =
     (\<lparr>content = data, isError = False\<rparr>,
      w\<lparr>ticks := ticks w + 3, trace := trace w @ [CacheRead (cache_key name args)]\<rparr>)"
proof -
  let ?w0 = "w\<lparr>ticks := Suc (ticks w)\<rparr>"
  have "call_tool_try py e name args ?w0 =
     (Inr data, ?w0\<lparr>ticks := ticks ?w0 + 2,
                  trace := trace ?w0 @ [CacheRead (cache_key name args)]\<rparr>)"
    using assms by (intro call_tool_try_hit [of _ _ _ ts]) simp_all
  with assms(1) show ?thesis by (simp add: call_tool_other)
qed

lemma reordered_sort_keys: "reordered u v \<Longrightarrow> sort_keys u = sort_keys v"
proof (induction rule: reordered.induct)
  case (same v)
  show ?case by simp
next
  case (array xs ys)
  then have "map sort_keys xs = map sort_keys ys"
    by (induction xs ys rule: list_all2_induct) auto
  then show ?case by simp
next
  case (object d d'' d')
  let ?g = "\<lambda>kv. (fst kv, sort_keys (snd kv))"
  from object(3) have m: "map ?g d = map ?g d''"
    by (induction d d'' rule: list_all2_induct) auto
  from object(3) have "map fst d = map fst d''"
    by (induction d d'' rule: list_all2_induct) auto
  with object(1) have dist: "distinct (map fst (map ?g d''))"
    by (simp add: comp_def)
  from object(2) have ms: "mset (map ?g d'') = mset (map ?g d')"
    by (simp only: mset_map)
  from sort_key_permutation [OF ms dist] m show ?case by simp
qed

lemma permuted_reordered:
  assumes "mset args' = mset args" and "distinct (map fst args)"
  shows "reordered (JObject args) (JObject args')"
proof (rule reordered.object [of args args args'])
  show "distinct (map fst args)" by fact
  show "mset args = mset args'" using assms(1) by simp
  show "list_all2 (\<lambda>kv kv'. fst kv = fst kv' \<and> reordered (snd kv) (snd kv')) args args"
    by (simp add: list_all2_same reordered.same)
qed

text \<open>
  Claim C4. Two argument objects holding the same key-value pairs in different key orders,
  at the top or inside any nested object, get the same cache key under every operation
  name. So when a call with the first has succeeded, its payload is in the cache under
  that key, and a call with the second, made in any state that still holds the entry and
  at a clock reading within the TTL of its timestamp, is a cache hit: it returns the same
  payload and its only effect is the lookup.
\<close>

theorem reordered_arguments_hit_cache:
  assumes perm: "reordered (JObject args) (JObject args')"
  shows "cache_key name args' = cache_key name args
     \<and> (\<forall>r w1. name \<noteq> ''health'' \<and> call_tool py e name args w = (r, w1) \<and> \<not> isError r \<longrightarrow>
          (\<exists>ts. map_of (cache w1) (cache_key name args) = Some (ts, content r)
             \<and> (\<forall>e' w2. map_of (cache w2) (cache_key name args) = Some (ts, content r)
                        \<and> clock e' (Suc (ticks w2)) - ts \<le> CACHE_TTL_SECONDS \<longrightarrow>
                  call_tool py e' name args' w2 =
                    (\<lparr>content = content r, isError = False\<rparr>,
                     w2\<lparr>ticks := ticks w2 + 3,
                        trace := trace w2 @ [CacheRead (cache_key name args)]\<rparr>))))"
proof -
  have key: "cache_key name args' = cache_key name args"
    using reordered_sort_keys [OF perm] by (simp add: cache_key_def)
  have "\<exists>ts. map_of (cache w1) (cache_key name args) = Some (ts, content r)
             \<and> (\<forall>e' w2. map_of (cache w2) (cache_key name args) = Some (ts, content r)
                        \<and> clock e' (Suc (ticks w2)) - ts \<le> CACHE_TTL_SECONDS \<longrightarrow>
                  call_tool py e' name args' w2 =
                    (\<lparr>content = content r, isError = False\<rparr>,
                     w2\<lparr>ticks := ticks w2 + 3,
                        trace := trace w2 @ [CacheRead (cache_key name args)]\<rparr>))"
    if h: "name \<noteq> ''health''" "call_tool py e name args w = (r, w1)" "\<not> isError r"
    for r w1
  proof -
    from call_tool_success_entry [OF h] obtain ts where
      ts: "map_of (cache w1) (cache_key name args) = Some (ts, content r)" "content r \<noteq> JNull"
      by blast
    have "call_tool py e' name args' w2 =
                    (\<lparr>content = content r, isError = False\<rparr>,
                     w2\<lparr>ticks := ticks w2 + 3,
                        trace := trace w2 @ [CacheRead (cache_key name args)]\<rparr>)"
      if g: "map_of (cache w2) (cache_key name args) = Some (ts, content r)"
        "clock e' (Suc (ticks w2)) - ts \<le> CACHE_TTL_SECONDS" for e' w2
      using call_tool_hit [of name w2 args' ts "content r" e' py] h(1) g ts(2)
      by (simp add: key)
    with ts(1) show ?thesis by blast
  qed
  with key show ?thesis by blast
qed

theorem reordered_arguments_hit_cache_witness:
  "reordered
     (JObject [(''query'', JString ''Inception''), (''type'', JString ''movie''),
               (''filters'', JObject [(''adult'', JBool False), (''region'', JString ''US'')])])
     (JObject [(''filters'', JObject [(''region'', JString ''US''), (''adult'', JBool False)]),
               (''type'', JString ''movie''), (''query'', JString ''Inception'')])
   \<and> cache_key ''search_title''
        [(''filters'', JObject [(''region'', JString ''US''), (''adult'', JBool False)]),
         (''type'', JString ''movie''), (''query'', JString ''Inception'')] =
       cache_key ''search_title''
        [(''query'', JString ''Inception''), (''type'', JString ''movie''),
         (''filters'', JObject [(''adult'', JBool False), (''region'', JString ''US'')])]
   \<and> \<not> isError (fst (call_tool sample_builtins (env_ok inception_body) ''search_title''
          [(''query'', JString ''Inception''), (''type'', JString ''movie''),
           (''filters'', JObject [(''adult'', JBool False), (''region'', JString ''US'')])]
          initial_world))
   \<and> fst (call_tool sample_builtins (env_ok inception_body) ''search_title''
          [(''filters'', JObject [(''region'', JString ''US''), (''adult'', JBool False)]),
           (''type'', JString ''movie''), (''query'', JString ''Inception'')]
          (snd (call_tool sample_builtins (env_ok inception_body) ''search_title''
             [(''query'', JString ''Inception''), (''type'', JString ''movie''),
              (''filters'', JObject [(''adult'', JBool False), (''region'', JString ''US'')])]
             initial_world)))
       = fst (call_tool sample_builtins (env_ok inception_body) ''search_title''
          [(''query'', JString ''Inception''), (''type'', JString ''movie''),
           (''filters'', JObject [(''adult'', JBool False), (''region'', JString ''US'')])]
          initial_world)
   \<and> new_events
        (snd (call_tool sample_builtins (env_ok inception_body) ''search_title''
             [(''query'', JString ''Inception''), (''type'', JString ''movie''),
              (''filters'', JObject [(''adult'', JBool False), (''region'', JString ''US'')])]
             initial_world))
        (snd (call_tool sample_builtins (env_ok inception_body) ''search_title''
          [(''filters'', JObject [(''region'', JString ''US''), (''adult'', JBool False)]),
           (''type'', JString ''movie''), (''query'', JString ''Inception'')]
          (snd (call_tool sample_builtins (env_ok inception_body) ''search_title''
             [(''query'', JString ''Inception''), (''type'', JString ''movie''),
              (''filters'', JObject [(''adult'', JBool False), (''region'', JString ''US'')])]
             initial_world))))
       = [CacheRead (cache_key ''search_title''
            [(''query'', JString ''Inception''), (''type'', JString ''movie''),
             (''filters'', JObject [(''adult'', JBool False), (''region'', JString ''US'')])])]"
proof -
  let ?f = "[(''adult'', JBool False), (''region'', JString ''US'')]"
  let ?f' = "[(''region'', JString ''US''), (''adult'', JBool False)]"
  let ?a = "[(''query'', JString ''Inception''), (''type'', JString ''movie''),
             (''filters'', JObject ?f)]"
  let ?m = "[(''query'', JString ''Inception''), (''type'', JString ''movie''),
             (''filters'', JObject ?f')]"
  let ?a' = "[(''filters'', JObject ?f'), (''type'', JString ''movie''),
              (''query'', JString ''Inception'')]"
  let ?e = "env_ok inception_body"
  let ?c1 = "call_tool sample_builtins ?e ''search_title'' ?a initial_world"
  let ?k = "cache_key ''search_title'' ?a"
  have inner: "reordered (JObject ?f) (JObject ?f')"
    by (rule reordered.object [of ?f ?f ?f']) (simp_all add: reordered.same)
  have perm: "reordered (JObject ?a) (JObject ?a')"
    by (rule reordered.object [of ?a ?m ?a']) (simp_all add: reordered.same inner)
  have run: "?c1 = (fst ?c1, snd ?c1)" by simp
  have ok: "\<not> isError (fst ?c1)" by code_simp
  have nm: "''search_title'' \<noteq> ''health''" by simp
  note inst = reordered_arguments_hit_cache [OF perm, of "''search_title''" sample_builtins ?e
      initial_world]
  from inst have key: "cache_key ''search_title'' ?a' = ?k" by blast
  from inst nm run ok
  obtain ts where
    ts: "map_of (cache (snd ?c1)) ?k = Some (ts, content (fst ?c1))"
      "\<And>e' w2. map_of (cache w2) ?k = Some (ts, content (fst ?c1)) \<Longrightarrow>
         clock e' (Suc (ticks w2)) - ts \<le> CACHE_TTL_SECONDS \<Longrightarrow>
         call_tool sample_builtins e' ''search_title'' ?a' w2 =
           (\<lparr>content = content (fst ?c1), isError = False\<rparr>,
            w2\<lparr>ticks := ticks w2 + 3, trace := trace w2 @ [CacheRead ?k]\<rparr>)"
    by blast
  have "fst (the (map_of (cache (snd ?c1)) ?k)) = 1002" by code_simp
  with ts(1) have tsv: "ts = 1002" by simp
  have "clock ?e (Suc (ticks (snd ?c1))) = 1005" by code_simp
  with tsv have "clock ?e (Suc (ticks (snd ?c1))) - ts \<le> CACHE_TTL_SECONDS"
    by (simp add: CACHE_TTL_SECONDS_def)
  from ts(2) [OF ts(1) this] have
    "call_tool sample_builtins ?e ''search_title'' ?a' (snd ?c1) =
       (\<lparr>content = content (fst ?c1), isError = False\<rparr>,
        (snd ?c1)\<lparr>ticks := ticks (snd ?c1) + 3, trace := trace (snd ?c1) @ [CacheRead ?k]\<rparr>)" .
  with ok perm key show ?thesis
    by (simp add: new_events_def)
qed

section \<open>Errors and the cache\<close>

lemma dispatch_no_write:
  assumes "dispatch py e name args w = (r, w')"
  shows "\<exists>evs. trace w' = trace w @ evs \<and> \<not> list_ex is_cache_write evs"
proof -
  from dispatch_frame [OF assms] obtain evs where
    evs: "trace w' = trace w @ evs"
      "evs \<noteq> [] \<longrightarrow> (\<exists>rq k. build_request py name args = Inr rq \<and>
         list_all (is_network (req_path rq)
           (AList.update ''api_key'' (JString k) (req_params rq))) evs)"
    by blast
  have "\<not> is_cache_write ev" if "ev \<in> set evs" for ev
  proof -
    from that have "evs \<noteq> []" by auto
    with evs(2) that obtain p q where "is_network p q ev"
      by (auto simp: list_all_iff)
    then show ?thesis by (cases ev) auto
  qed
  with evs(1) show ?thesis by (auto simp: list_ex_iff)
qed

lemma cache_get_null_no_write:
  assumes "cache_get e name args w = (JNull, w1)"
  shows "\<exists>evs. trace w1 = trace w @ evs \<and> \<not> list_ex is_cache_write evs"
    and "\<And>k v. map_of (cache w1) k = Some v \<Longrightarrow> map_of (cache w) k = Some v"
  using cache_get_null_cases [OF assms]
  by (auto simp: delete_conv split: if_splits)

text \<open>
  Claim C6. A tool call that ends in an error envelope writes nothing to the cache: its
  effects contain no cache write and every entry of the cache afterwards was there before.
  A call whose effects contain a cache write is not an error: the dispatched operation
  returned the payload the call returns, and that payload is what is stored under the
  call's key.
\<close>

theorem cache_write_only_on_success:
  assumes run: "call_tool py e name args w = (r, w')"
  shows "(isError r \<longrightarrow>
            \<not> list_ex is_cache_write (new_events w w')
          \<and> (\<forall>k v. map_of (cache w') k = Some v \<longrightarrow> map_of (cache w) k = Some v))
       \<and> (list_ex is_cache_write (new_events w w') \<longrightarrow>
            \<not> isError r
          \<and> (\<exists>w1 w2. dispatch py e name args w1 = (Inr (content r), w2))
          \<and> (\<exists>ts. map_of (cache w') (cache_key name args) = Some (ts, content r)))"
proof (cases "name = ''health''")
  case True
  with run show ?thesis by (auto simp: call_tool_health new_events_def)
next
  case False
  let ?w0 = "w\<lparr>ticks := Suc (ticks w)\<rparr>"
  obtain r0 w0' where t: "call_tool_try py e name args ?w0 = (r0, w0')"
    by (cases "call_tool_try py e name args ?w0")
  from t show ?thesis
  proof (cases rule: call_tool_try_cases)
    case (hit ts data)
    with run t False show ?thesis
      by (auto simp: call_tool_other new_events_def)
  next
    case (failed w1 ex)
    from cache_get_null_no_write [OF failed(1)] obtain evs1 where
      g: "trace w1 = trace w @ evs1" "\<not> list_ex is_cache_write evs1"
        "\<And>k v. map_of (cache w1) k = Some v \<Longrightarrow> map_of (cache w) k = Some v"
      by auto
    from dispatch_no_write [OF failed(2)] obtain evs2 where
      d: "trace w0' = trace w1 @ evs2" "\<not> list_ex is_cache_write evs2"
      by blast
    from dispatch_frame [OF failed(2)] have c: "cache w0' = cache w1" by simp
    from run t False failed(3) have rw: "r = handle_exn ex" "w' = w0'"
      by (simp_all add: call_tool_other)
    from g d c rw show ?thesis
      by (auto simp: new_events_def list_ex_iff)
  next
    case (fetched w1 w2 result)
    from run t False fetched(3) have rw: "r = \<lparr>content = result, isError = False\<rparr>" "w' = w0'"
      by (simp_all add: call_tool_other)
    from rw fetched(2,4) show ?thesis
      by (auto simp: update_conv)
  qed
qed

theorem cache_write_only_on_success_witness:
  "isError (fst (call_tool sample_builtins (env_always (Response 503 (Inl [])))
       ''discover'' [(''type'', JString ''tv'')] initial_world))
   \<and> \<not> list_ex is_cache_write (new_events initial_world
         (snd (call_tool sample_builtins (env_always (Response 503 (Inl [])))
            ''discover'' [(''type'', JString ''tv'')] initial_world)))
   \<and> list_ex is_cache_write (new_events initial_world
         (snd (call_tool sample_builtins (env_ok no_results)
            ''discover'' [(''type'', JString ''tv'')] initial_world)))
   \<and> \<not> isError (fst (call_tool sample_builtins (env_ok no_results)
            ''discover'' [(''type'', JString ''tv'')] initial_world))
   \<and> (\<exists>ts. map_of (cache (snd (call_tool sample_builtins (env_ok no_results)
            ''discover'' [(''type'', JString ''tv'')] initial_world)))
          (cache_key ''discover'' [(''type'', JString ''tv'')])
        = Some (ts, content (fst (call_tool sample_builtins (env_ok no_results)
            ''discover'' [(''type'', JString ''tv'')] initial_world))))"
proof -
  let ?bad = "call_tool sample_builtins (env_always (Response 503 (Inl [])))
       ''discover'' [(''type'', JString ''tv'')] initial_world"
  let ?good = "call_tool sample_builtins (env_ok no_results)
       ''discover'' [(''type'', JString ''tv'')] initial_world"
  have b: "?bad = (fst ?bad, snd ?bad)" and g: "?good = (fst ?good, snd ?good)"
    by simp_all
  have eb: "isError (fst ?bad)" by code_simp
  have wg: "list_ex is_cache_write (new_events initial_world (snd ?good))" by code_simp
  from cache_write_only_on_success [OF b] cache_write_only_on_success [OF g] eb wg
  show ?thesis by blast
qed

section \<open>Validation failures\<close>





lemma call_tool_rejected:
  assumes reach: "reachable py e w" and rq: "build_request py name args = Inl ex"
    and nm: "name \<noteq> ''health''"
  shows "call_tool py e name args w =
     (handle_exn ex,
      w\<lparr>ticks := Suc (ticks w), trace := trace w @ [CacheRead (cache_key name args)]\<rparr>)"
proof -
  let ?w0 = "w\<lparr>ticks := Suc (ticks w)\<rparr>"
  from rq have "\<not> accepts py name args" by (simp add: accepts_def)
  from inv_miss [OF reachable_inv [OF reach] this]
  have "map_of (cache ?w0) (cache_key name args) = None" by simp
  from call_tool_try_rejected [OF this rq, of e] nm show ?thesis
    by (simp add: call_tool_other)
qed




text \<open>
  Claim C10. In every state of the server, a \<open>search_title\<close> call whose \<open>query\<close> is present
  and is not a string makes the operation raise the interpreter's \<open>AttributeError\<close> for
  \<open>strip\<close>, an exception outside the server's own class, and the dispatcher returns the
  envelope with code \<open>INTERNAL_ERROR\<close> and that exception's message, not
  \<open>VALIDATION_ERROR\<close>.
\<close>

theorem non_string_query_is_internal_error:
  assumes reach: "reachable py e w"
    and present: "map_of args ''query'' = Some v" and other: "\<forall>s. v \<noteq> JString s"
  shows "search_title py e args w =
           (Inl (PyExc AttributeError
                   (quoted (type_name v) @ '' object has no attribute '' @ quoted ''strip'')), w)
       \<and> call_tool py e ''search_title'' args w =
           (\<lparr>content = JObject
                [(''error'', JString ''INTERNAL_ERROR''),
                 (''message'', JString (quoted (type_name v) @ '' object has no attribute ''
                                          @ quoted ''strip''))],
             isError = True\<rparr>,
            w\<lparr>ticks := Suc (ticks w),
               trace := trace w @ [CacheRead (cache_key ''search_title'' args)]\<rparr>)"
proof -
  let ?ex = "PyExc AttributeError
               (quoted (type_name v) @ '' object has no attribute '' @ quoted ''strip'')"
  from other have "py_strip v = Inl ?ex"
    by (cases v) (auto simp: no_attribute_def)
  with present have rq: "search_title_request py args = Inl ?ex"
    by (simp add: search_title_request_def dict_get_default_def)
  then have b: "build_request py ''search_title'' args = Inl ?ex"
    by (simp add: build_request_def)
  from rq have "search_title py e args w = (Inl ?ex, w)"
    by (simp add: search_title_def)
  moreover from call_tool_rejected [OF reach b]
  have "call_tool py e ''search_title'' args w =
     (handle_exn ?ex,
      w\<lparr>ticks := Suc (ticks w), trace := trace w @ [CacheRead (cache_key ''search_title'' args)]\<rparr>)"
    by simp
  ultimately show ?thesis
    by (simp add: internal_error_envelope_def)
qed

theorem non_string_query_is_internal_error_witness:
  "reachable sample_builtins (env_ok inception_body) initial_world
   \<and> map_of [(''query'', JArray [JString ''Inception'']), (''type'', JString ''movie'')]
        ''query'' = Some (JArray [JString ''Inception''])
   \<and> (\<forall>s. JArray [JString ''Inception''] \<noteq> JString s)
   \<and> fst (call_tool sample_builtins (env_ok inception_body) ''search_title''
            [(''query'', JArray [JString ''Inception'']), (''type'', JString ''movie'')]
            initial_world) =
       \<lparr>content = JObject
            [(''error'', JString ''INTERNAL_ERROR''),
             (''message'', JString (quoted ''list'' @ '' object has no attribute ''
                                      @ quoted ''strip''))],
         isError = True\<rparr>"
proof -
  have r: "reachable sample_builtins (env_ok inception_body) initial_world"
    by (rule reachable.start)
  have p: "map_of [(''query'', JArray [JString ''Inception'']), (''type'', JString ''movie'')]
        ''query'' = Some (JArray [JString ''Inception''])"
    by simp
  have o: "\<forall>s. JArray [JString ''Inception''] \<noteq> JString s" by simp
  from non_string_query_is_internal_error [OF r p o] r p o show ?thesis
    by simp
qed

section \<open>The error envelope\<close>

lemma call_tool_try_codes:
  assumes "call_tool_try py e name args w = (Inl (TMDBError m c s), w')"
  shows "c \<in> classified_codes"
  using assms
proof (cases rule: call_tool_try_cases)
  case (failed w1 ex)
  then show ?thesis using dispatch_codes [of py e name args w1 m c s w'] by simp
qed simp_all

lemma call_tool_try_payload:
  assumes inv: "cache_inv py w" and run: "call_tool_try py e name args w = (Inr result, w')"
  shows "\<exists>results fetched_at. result = payload results fetched_at"
  using run
proof (cases rule: call_tool_try_cases)
  case (hit ts data)
  with inv show ?thesis unfolding cache_inv_def cache_key_def by blast
next
  case (failed w1 ex)
  then show ?thesis by simp
next
  case (fetched w1 w2 res)
  with dispatch_success [OF fetched(2)] show ?thesis by simp
qed

lemma internal_not_classified: "''INTERNAL_ERROR'' \<notin> classified_codes"
  by (simp add: classified_codes_def)

text \<open>
  Claim C8. The dispatcher is a total function of the call and the state: whatever the
  operation name and the argument object, it returns a result and raises nothing. When the
  body of its \<open>try\<close> statement raises one of the server's own errors, the result is the
  envelope with that error's code and message and the source; the code is one of the
  classified codes. When the body raises any other exception, the result is the envelope
  with code \<open>INTERNAL_ERROR\<close>, which is not a classified code, and the exception's message.
  Every error result is one of these two. An operation name other than the four known
  gives the envelope with code \<open>UNKNOWN_TOOL\<close>. Every other result is the health report
  or a success payload.
\<close>

theorem call_tool_returns_envelope:
  assumes reach: "reachable py e w" and run: "call_tool py e name args w = (r, w')"
  shows "(isError r \<longrightarrow>
            (\<exists>code message. code \<in> classified_codes
               \<and> content r = JObject [(''error'', JString code), (''message'', JString message),
                                      (''source'', JString ''TMDB'')])
          \<or> (\<exists>message. content r = JObject [(''error'', JString ''INTERNAL_ERROR''),
                                             (''message'', JString message)]))
       \<and> (name \<noteq> ''health'' \<longrightarrow>
            (\<forall>message code status w2.
               call_tool_try py e name args (w\<lparr>ticks := Suc (ticks w)\<rparr>)
                 = (Inl (TMDBError message code status), w2) \<longrightarrow>
               code \<in> classified_codes
               \<and> r = \<lparr>content = JObject [(''error'', JString code),
                                         (''message'', JString message),
                                         (''source'', JString ''TMDB'')],
                      isError = True\<rparr>)
          \<and> (\<forall>c message w2.
               call_tool_try py e name args (w\<lparr>ticks := Suc (ticks w)\<rparr>)
                 = (Inl (PyExc c message), w2) \<longrightarrow>
               r = \<lparr>content = JObject [(''error'', JString ''INTERNAL_ERROR''),
                                       (''message'', JString message)],
                    isError = True\<rparr>))
       \<and> ''INTERNAL_ERROR'' \<notin> classified_codes
       \<and> (name \<notin> {''health'', ''search_title'', ''get_recommendations'', ''discover''} \<longrightarrow>
            r = \<lparr>content = JObject [(''error'', JString ''UNKNOWN_TOOL''),
                                    (''message'', JString (''Unknown tool: '' @ name)),
                                    (''source'', JString ''TMDB'')],
                 isError = True\<rparr>)
       \<and> (\<not> isError r \<longrightarrow>
            name = ''health'' \<or> (\<exists>results fetched_at. content r = payload results fetched_at))"
proof (cases "name = ''health''")
  case True
  with run show ?thesis
    by (auto simp: call_tool_health internal_not_classified)
next
  case False
  let ?w0 = "w\<lparr>ticks := Suc (ticks w)\<rparr>"
  have inv: "cache_inv py ?w0"
    using reachable_inv [OF reach] by (simp add: cache_inv_def)
  obtain r0 w0' where t: "call_tool_try py e name args ?w0 = (r0, w0')"
    by (cases "call_tool_try py e name args ?w0")
  have unknown: "r = \<lparr>content = JObject [(''error'', JString ''UNKNOWN_TOOL''),
                                    (''message'', JString (''Unknown tool: '' @ name)),
                                    (''source'', JString ''TMDB'')],
                 isError = True\<rparr>"
    if u: "name \<notin> {''health'', ''search_title'', ''get_recommendations'', ''discover''}"
  proof -
    from u have "build_request py name args =
        Inl (TMDBError (''Unknown tool: '' @ name) ''UNKNOWN_TOOL'' 400)"
      by (simp add: build_request_def)
    from call_tool_rejected [OF reach this False] run show ?thesis
      by (simp add: error_envelope_def)
  qed
  show ?thesis
  proof (cases r0)
    case (Inr result)
    with run t False have r: "r = \<lparr>content = result, isError = False\<rparr>"
      by (simp add: call_tool_other)
    from call_tool_try_payload [OF inv t [unfolded Inr]] obtain results fetched_at
      where "result = payload results fetched_at" by blast
    with r t Inr False unknown show ?thesis
      by (auto simp: internal_not_classified)
  next
    case (Inl ex)
    with run t False have r: "r = handle_exn ex"
      by (simp add: call_tool_other)
    show ?thesis
    proof (cases ex)
      case (TMDBError message code status)
      with t Inl have "code \<in> classified_codes"
        using call_tool_try_codes [of py e name args ?w0 message code status w0'] by simp
      with r t Inl TMDBError False unknown show ?thesis
        by (auto simp: internal_not_classified error_envelope_def)
    next
      case (PyExc c message)
      with r t Inl False unknown show ?thesis
        by (auto simp: internal_not_classified internal_error_envelope_def)
    qed
  qed
qed

theorem call_tool_returns_envelope_witness:
  "reachable sample_builtins (env_ok no_results) initial_world
   \<and> ''play_trailer'' \<notin> {''health'', ''search_title'', ''get_recommendations'', ''discover''}
   \<and> fst (call_tool sample_builtins (env_ok no_results) ''play_trailer'' [] initial_world) =
       \<lparr>content = JObject [(''error'', JString ''UNKNOWN_TOOL''),
                           (''message'', JString ''Unknown tool: play_trailer''),
                           (''source'', JString ''TMDB'')],
        isError = True\<rparr>
   \<and> fst (call_tool_try sample_builtins (env_ok no_results) ''get_recommendations''
            [(''id'', JFloat PInf), (''type'', JString ''movie'')]
            (initial_world\<lparr>ticks := Suc (ticks initial_world)\<rparr>)) =
       Inl (PyExc OverflowError ''cannot convert float infinity to integer'')
   \<and> fst (call_tool sample_builtins (env_ok no_results) ''get_recommendations''
            [(''id'', JFloat PInf), (''type'', JString ''movie'')] initial_world) =
       \<lparr>content = JObject [(''error'', JString ''INTERNAL_ERROR''),
                           (''message'', JString ''cannot convert float infinity to integer'')],
        isError = True\<rparr>
   \<and> \<not> isError (fst (call_tool sample_builtins (env_ok no_results) ''discover''
                       [(''type'', JString ''tv'')] initial_world))
   \<and> (\<exists>results fetched_at.
         content (fst (call_tool sample_builtins (env_ok no_results) ''discover''
                         [(''type'', JString ''tv'')] initial_world)) =
         payload results fetched_at)"
proof -
  let ?e = "env_ok no_results"
  let ?w0 = "initial_world\<lparr>ticks := Suc (ticks initial_world)\<rparr>"
  let ?a = "[(''id'', JFloat PInf), (''type'', JString ''movie'')]"
  let ?u = "call_tool sample_builtins ?e ''play_trailer'' [] initial_world"
  let ?i = "call_tool sample_builtins ?e ''get_recommendations'' ?a initial_world"
  let ?d = "call_tool sample_builtins ?e ''discover'' [(''type'', JString ''tv'')] initial_world"
  let ?t = "call_tool_try sample_builtins ?e ''get_recommendations'' ?a ?w0"
  have r: "reachable sample_builtins ?e initial_world" by (rule reachable.start)
  have u: "?u = (fst ?u, snd ?u)" and i: "?i = (fst ?i, snd ?i)" and d: "?d = (fst ?d, snd ?d)"
    by simp_all
  have n: "''play_trailer'' \<notin> {''health'', ''search_title'', ''get_recommendations'',
      ''discover''}"
    by simp
  have n2: "''get_recommendations'' \<noteq> ''health''" by simp
  have t: "?t = (Inl (PyExc OverflowError ''cannot convert float infinity to integer''), snd ?t)"
    by code_simp
  have ok: "\<not> isError (fst ?d)" by code_simp
  have nd: "''discover'' \<noteq> ''health''" by simp
  from call_tool_returns_envelope [OF r u] n
  have c1: "fst ?u = \<lparr>content = JObject [(''error'', JString ''UNKNOWN_TOOL''),
                           (''message'', JString ''Unknown tool: play_trailer''),
                           (''source'', JString ''TMDB'')],
        isError = True\<rparr>"
    by simp
  from call_tool_returns_envelope [OF r i] n2 t
  have c2: "fst ?i = \<lparr>content = JObject [(''error'', JString ''INTERNAL_ERROR''),
                           (''message'', JString ''cannot convert float infinity to integer'')],
        isError = True\<rparr>"
    by blast
  from call_tool_returns_envelope [OF r d] ok nd
  have c3: "\<exists>results fetched_at. content (fst ?d) = payload results fetched_at"
    by blast
  have c4: "fst ?t = Inl (PyExc OverflowError ''cannot convert float infinity to integer'')"
    by code_simp
  from r n c1 c4 c2 ok c3 show ?thesis by blast
qed

end
